theory Spec2Isabelle
  imports Main "HOL-Library.Word"
begin

unbundle bit_operations_syntax

section \<open>Text\<close>

text \<open>
  A Python \<open>str\<close> is a sequence of Unicode code points. The scrapers match Chinese
  labels, so text is a list of code points, not of bytes. ASCII literals are written
  through \<open>asc\<close>; the Chinese labels are written as their code points:
  U+622A U+6B62 (\<open>jiezhi\<close>, "deadline"), U+7E73 U+4EA4 (\<open>jiaojiao\<close>, "hand in"),
  U+671F U+9650 (\<open>qixian\<close>, "time limit"), U+5230 U+671F (\<open>daoqi\<close>, "falls due"),
  U+6642 U+9593 (\<open>shijian\<close>, "time") and the full-width colon U+FF1A.
\<close>

type_synonym ustr = "nat list"

definition asc :: "string \<Rightarrow> ustr" where
  "asc s = map of_char s"

definition jiezhi :: ustr where "jiezhi = [25130, 27490]"
definition jiaojiao :: ustr where "jiaojiao = [32371, 20132]"
definition qixian :: ustr where "qixian = [26399, 38480]"
definition daoqi :: ustr where "daoqi = [21040, 26399]"
definition shijian :: ustr where "shijian = [26178, 38291]"
definition fwcolon :: nat where "fwcolon = 65306"

text \<open>\<open>sep.join(parts)\<close>.\<close>

fun join :: "ustr \<Rightarrow> ustr list \<Rightarrow> ustr" where
  "join sep [] = []"
| "join sep [x] = x"
| "join sep (x # y # ys) = x @ sep @ join sep (y # ys)"

text \<open>\<open>s.lstrip("/")\<close> and \<open>s.rstrip("/")\<close>.\<close>

definition lstrip_slash :: "ustr \<Rightarrow> ustr" where
  "lstrip_slash s = dropWhile (\<lambda>c. c = 47) s"

definition rstrip_slash :: "ustr \<Rightarrow> ustr" where
  "rstrip_slash s = rev (dropWhile (\<lambda>c. c = 47) (rev s))"

text \<open>\<open>needle in s\<close> and \<open>s.startswith(p)\<close> on strings.\<close>

fun startswith :: "ustr \<Rightarrow> ustr \<Rightarrow> bool" where
  "startswith s [] = True"
| "startswith [] (p # ps) = False"
| "startswith (x # xs) (p # ps) = (x = p \<and> startswith xs ps)"

fun contains :: "ustr \<Rightarrow> ustr \<Rightarrow> bool" where
  "contains [] needle = (needle = [])"
| "contains (x # xs) needle = (startswith (x # xs) needle \<or> contains xs needle)"


section \<open>Regular expressions\<close>

text \<open>
  The fragment of Python's \<open>re\<close> that the scrapers use, with its backtracking
  semantics: alternatives are tried in order, quantifiers are greedy, and the first
  way to match that lets the rest of the pattern succeed is the match.

  Character classes: \<open>\d\<close> is any code point of Unicode category Nd (the table is the
  one of the Unicode database 14.0), \<open>\s\<close> any Unicode white space, and \<open>[...]\<close> a
  set of code points.
\<close>

datatype cls = Digit | Space | OneOf ustr

datatype re =
    Bol                 \<comment> \<open>\<open>^\<close> (no MULTILINE flag: start of the subject only)\<close>
  | Lit ustr            \<comment> \<open>literal text\<close>
  | Cls cls             \<comment> \<open>one character of a class\<close>
  | Seq re re
  | Alt re re           \<comment> \<open>\<open>a|b\<close>, left first\<close>
  | Opt re              \<comment> \<open>\<open>a?\<close>, greedy\<close>
  | Rep nat nat cls     \<comment> \<open>\<open>c{m,n}\<close>, greedy\<close>
  | Many cls            \<comment> \<open>\<open>c*\<close>, greedy\<close>
  | Many1 cls           \<comment> \<open>\<open>c+\<close>, greedy\<close>

definition nd_starts :: "nat list" where
  "nd_starts = [1632, 1776, 1984, 2406, 2534, 2662, 2790, 2918, 3046, 3174, 3302,
     3430, 3558, 3664, 3792, 3872, 4160, 4240, 6112, 6160, 6470, 6608, 6784, 6800,
     6992, 7088, 7232, 7248, 42528, 43216, 43264, 43472, 43504, 43600, 44016, 65296,
     66720, 68912, 69734, 69872, 69942, 70096, 70384, 70736, 70864, 71248, 71360,
     71472, 71904, 72016, 72784, 73040, 73120, 92768, 92864, 93008, 123200, 123632,
     125264, 130032]"

definition is_digit :: "nat \<Rightarrow> bool" where
  "is_digit c =
     (if c < 128 then 48 \<le> c \<and> c \<le> 57
      else (120782 \<le> c \<and> c \<le> 120831) \<or> list_ex (\<lambda>s. s \<le> c \<and> c \<le> s + 9) nd_starts)"

definition is_space :: "nat \<Rightarrow> bool" where
  "is_space c =
     (if c < 128 then (9 \<le> c \<and> c \<le> 13) \<or> (28 \<le> c \<and> c \<le> 32)
      else c \<in> set [133, 160, 5760, 8232, 8233, 8239, 8287, 12288] \<or> (8192 \<le> c \<and> c \<le> 8202))"

text \<open>
  Case-insensitive comparison (flag \<open>re.I\<close>). The patterns below contain only the
  letters of "due date" and Chinese characters; on these, Python's Unicode case
  folding is the ASCII one (no other code point folds to one of these letters).
\<close>

definition lower :: "nat \<Rightarrow> nat" where
  "lower c = (if 65 \<le> c \<and> c \<le> 90 then c + 32 else c)"

definition chr_eq :: "bool \<Rightarrow> nat \<Rightarrow> nat \<Rightarrow> bool" where
  "chr_eq ic p x = (if ic then lower p = lower x else p = x)"

fun in_cls :: "bool \<Rightarrow> cls \<Rightarrow> nat \<Rightarrow> bool" where
  "in_cls ic Digit x = is_digit x"
| "in_cls ic Space x = is_space x"
| "in_cls ic (OneOf cs) x = list_ex (\<lambda>p. chr_eq ic p x) cs"

fun lit_match :: "bool \<Rightarrow> ustr \<Rightarrow> ustr \<Rightarrow> ustr option" where
  "lit_match ic [] s = Some s"
| "lit_match ic (p # ps) [] = None"
| "lit_match ic (p # ps) (x # xs) = (if chr_eq ic p x then lit_match ic ps xs else None)"

text \<open>
  The continuation \<open>k\<close> is the rest of the pattern; it receives the rest of the
  subject. A greedy quantifier tries one more character first and falls back to fewer
  when the continuation fails.
\<close>

fun rep_match :: "bool \<Rightarrow> cls \<Rightarrow> nat \<Rightarrow> nat \<Rightarrow> ustr \<Rightarrow> (ustr \<Rightarrow> ustr option) \<Rightarrow> ustr option" where
  "rep_match ic c m 0 s k = (if m = 0 then k s else None)"
| "rep_match ic c m (Suc n) [] k = (if m = 0 then k [] else None)"
| "rep_match ic c m (Suc n) (x # xs) k =
     (if in_cls ic c x then
        (case rep_match ic c (m - 1) n xs k of
           Some r \<Rightarrow> Some r
         | None \<Rightarrow> if m = 0 then k (x # xs) else None)
      else if m = 0 then k (x # xs) else None)"

fun many_match :: "bool \<Rightarrow> cls \<Rightarrow> ustr \<Rightarrow> (ustr \<Rightarrow> ustr option) \<Rightarrow> ustr option" where
  "many_match ic c [] k = k []"
| "many_match ic c (x # xs) k =
     (if in_cls ic c x then
        (case many_match ic c xs k of Some r \<Rightarrow> Some r | None \<Rightarrow> k (x # xs))
      else k (x # xs))"

text \<open>
  \<open>rmatch ic n0 r s k\<close>: match \<open>r\<close> at the front of \<open>s\<close>, where the whole subject
  has length \<open>n0\<close>, then continue with \<open>k\<close>.
\<close>

fun rmatch :: "bool \<Rightarrow> nat \<Rightarrow> re \<Rightarrow> ustr \<Rightarrow> (ustr \<Rightarrow> ustr option) \<Rightarrow> ustr option" where
  "rmatch ic n0 Bol s k = (if length s = n0 then k s else None)"
| "rmatch ic n0 (Lit w) s k = (case lit_match ic w s of None \<Rightarrow> None | Some s' \<Rightarrow> k s')"
| "rmatch ic n0 (Cls c) [] k = None"
| "rmatch ic n0 (Cls c) (x # xs) k = (if in_cls ic c x then k xs else None)"
| "rmatch ic n0 (Seq a b) s k = rmatch ic n0 a s (\<lambda>s'. rmatch ic n0 b s' k)"
| "rmatch ic n0 (Alt a b) s k =
     (case rmatch ic n0 a s k of Some r \<Rightarrow> Some r | None \<Rightarrow> rmatch ic n0 b s k)"
| "rmatch ic n0 (Opt a) s k =
     (case rmatch ic n0 a s k of Some r \<Rightarrow> Some r | None \<Rightarrow> k s)"
| "rmatch ic n0 (Rep m n c) s k = rep_match ic c m n s k"
| "rmatch ic n0 (Many c) s k = many_match ic c s k"
| "rmatch ic n0 (Many1 c) [] k = None"
| "rmatch ic n0 (Many1 c) (x # xs) k = (if in_cls ic c x then many_match ic c xs k else None)"

text \<open>The matched text (\<open>m.group(0)\<close>) of a match starting at the front of \<open>s\<close>.\<close>

definition match_at :: "bool \<Rightarrow> nat \<Rightarrow> re \<Rightarrow> ustr \<Rightarrow> ustr option" where
  "match_at ic n0 r s =
     (case rmatch ic n0 r s Some of
        None \<Rightarrow> None
      | Some rest \<Rightarrow> Some (take (length s - length rest) s))"

text \<open>\<open>re.search\<close>: the leftmost match; the result is its text.\<close>

fun search_from :: "bool \<Rightarrow> nat \<Rightarrow> re \<Rightarrow> ustr \<Rightarrow> ustr option" where
  "search_from ic n0 r [] = match_at ic n0 r []"
| "search_from ic n0 r (x # xs) =
     (case match_at ic n0 r (x # xs) of
        Some m \<Rightarrow> Some m
      | None \<Rightarrow> search_from ic n0 r xs)"

definition re_search :: "bool \<Rightarrow> re \<Rightarrow> ustr \<Rightarrow> ustr option" where
  "re_search ic r s = search_from ic (length s) r s"

text \<open>
  \<open>re.sub(r, "", s)\<close>: every non-overlapping match, from the left, is deleted. After
  an empty match the scan copies one character and moves on.
\<close>

function sub_from :: "bool \<Rightarrow> nat \<Rightarrow> re \<Rightarrow> ustr \<Rightarrow> ustr" where
  "sub_from ic n0 r [] = []"
| "sub_from ic n0 r (x # xs) =
     (case rmatch ic n0 r (x # xs) Some of
        None \<Rightarrow> x # sub_from ic n0 r xs
      | Some rest \<Rightarrow>
          if length rest < length (x # xs) then sub_from ic n0 r rest
          else x # sub_from ic n0 r xs)"
  by pat_completeness auto
termination
  by (relation "measure (\<lambda>(ic, n0, r, s). length s)") auto

definition re_sub_empty :: "bool \<Rightarrow> re \<Rightarrow> ustr \<Rightarrow> ustr" where
  "re_sub_empty ic r s = sub_from ic (length s) r s"

fun seqs :: "re list \<Rightarrow> re" where
  "seqs [] = Lit []"
| "seqs [r] = r"
| "seqs (r # rs) = Seq r (seqs rs)"

fun alts :: "re list \<Rightarrow> re" where
  "alts [] = Lit []"
| "alts [r] = r"
| "alts (r # rs) = Alt r (alts rs)"


section \<open>Event identity: UTF-8 and SHA-1\<close>

text \<open>
  \<open>s.encode("utf-8")\<close>: bytes are numbers below 256. Python refuses to encode a
  surrogate code point (UnicodeEncodeError); that is \<open>None\<close>.
\<close>

definition utf8_char :: "nat \<Rightarrow> nat list option" where
  "utf8_char c =
     (if c < 128 then Some [c]
      else if c < 2048 then Some [192 + c div 64, 128 + c mod 64]
      else if c < 65536 then
        (if 55296 \<le> c \<and> c \<le> 57343 then None
         else Some [224 + c div 4096, 128 + c div 64 mod 64, 128 + c mod 64])
      else if c < 1114112 then
        Some [240 + c div 262144, 128 + c div 4096 mod 64, 128 + c div 64 mod 64, 128 + c mod 64]
      else None)"

definition utf8_encode :: "ustr \<Rightarrow> nat list option" where
  "utf8_encode s = map_option concat (those (map utf8_char s))"

text \<open>
  \<open>hashlib.sha1(data).hexdigest()\<close>, the Secure Hash Algorithm 1 of FIPS 180-4 on
  32-bit words, printed as 40 lower-case hexadecimal digits.
\<close>

type_synonym w32 = "32 word"

definition rotl :: "nat \<Rightarrow> w32 \<Rightarrow> w32" where
  "rotl n x = push_bit n x OR drop_bit (32 - n) x"

definition be_bytes :: "nat \<Rightarrow> nat \<Rightarrow> nat list" where
  "be_bytes k n = map (\<lambda>i. n div 256 ^ i mod 256) (rev [0..<k])"

definition sha1_pad :: "nat list \<Rightarrow> nat list" where
  "sha1_pad m =
     m @ [128] @ replicate ((119 - length m mod 64) mod 64) 0 @ be_bytes 8 (8 * length m)"

fun chunks64 :: "nat \<Rightarrow> nat list \<Rightarrow> nat list list" where
  "chunks64 0 bs = []"
| "chunks64 (Suc k) bs = take 64 bs # chunks64 k (drop 64 bs)"

definition be_word :: "nat list \<Rightarrow> w32" where
  "be_word bs = of_nat (foldl (\<lambda>a b. a * 256 + b) 0 bs)"

definition block_words :: "nat list \<Rightarrow> w32 list" where
  "block_words blk = map (\<lambda>i. be_word (take 4 (drop (4 * i) blk))) [0..<16]"

fun expand :: "nat \<Rightarrow> w32 list \<Rightarrow> w32 list" where
  "expand 0 ws = ws"
| "expand (Suc n) ws =
     (let l = length ws in
      expand n (ws @ [rotl 1 (ws ! (l - 3) XOR ws ! (l - 8) XOR ws ! (l - 14) XOR ws ! (l - 16))]))"

definition sha1_f :: "nat \<Rightarrow> w32 \<Rightarrow> w32 \<Rightarrow> w32 \<Rightarrow> w32" where
  "sha1_f t b c d =
     (if t < 20 then (b AND c) OR (NOT b AND d)
      else if t < 40 then b XOR c XOR d
      else if t < 60 then (b AND c) OR (b AND d) OR (c AND d)
      else b XOR c XOR d)"

definition sha1_k :: "nat \<Rightarrow> w32" where
  "sha1_k t =
     (if t < 20 then 0x5A827999 else if t < 40 then 0x6ED9EBA1
      else if t < 60 then 0x8F1BBCDC else 0xCA62C1D6)"

type_synonym sha1_state = "w32 \<times> w32 \<times> w32 \<times> w32 \<times> w32"

fun sha1_round :: "w32 list \<Rightarrow> sha1_state \<Rightarrow> nat \<Rightarrow> sha1_state" where
  "sha1_round ws (a, b, c, d, e) t =
     (rotl 5 a + sha1_f t b c d + e + sha1_k t + ws ! t, a, rotl 30 b, c, d)"

fun sha1_block :: "sha1_state \<Rightarrow> nat list \<Rightarrow> sha1_state" where
  "sha1_block (h0, h1, h2, h3, h4) blk =
     (case foldl (sha1_round (expand 64 (block_words blk))) (h0, h1, h2, h3, h4) [0..<80] of
        (a, b, c, d, e) \<Rightarrow> (h0 + a, h1 + b, h2 + c, h3 + d, h4 + e))"

definition sha1_init :: sha1_state where
  "sha1_init = (0x67452301, 0xEFCDAB89, 0x98BADCFE, 0x10325476, 0xC3D2E1F0)"

definition sha1 :: "nat list \<Rightarrow> sha1_state" where
  "sha1 m = (let p = sha1_pad m in foldl sha1_block sha1_init (chunks64 (length p div 64) p))"

definition hexdigit :: "nat \<Rightarrow> nat" where
  "hexdigit n = (if n < 10 then 48 + n else 87 + n)"

definition hex8 :: "w32 \<Rightarrow> ustr" where
  "hex8 w = map (\<lambda>i. hexdigit (unat (drop_bit (4 * i) w AND 15))) (rev [0..<8])"

fun hexdigest :: "sha1_state \<Rightarrow> ustr" where
  "hexdigest (h0, h1, h2, h3, h4) = hex8 h0 @ hex8 h1 @ hex8 h2 @ hex8 h3 @ hex8 h4"



section \<open>Dates, pages and the outside world\<close>

text \<open>
  A \<open>datetime\<close> is its wall-clock fields and an optional time zone (\<open>None\<close>: naive).
  The zone type \<open>'z\<close> is left open.
\<close>

record civil =
  c_year :: int
  c_month :: int
  c_day :: int
  c_hour :: int
  c_minute :: int

record 'z datetime =
  wall :: civil
  tzinfo :: "'z option"

text \<open>
  What BeautifulSoup reports of a page, for the queries the scrapers make. A row
  (\<open>tr\<close>) is its first \<open>a\<close> element with an \<open>href\<close> attribute, as the pair of the
  attribute and \<open>a.get_text(strip=True)\<close>, and the texts
  \<open>td.get_text(" ", strip=True)\<close> of its cells. A page is the rows of its first
  table (\<open>soup.find("table")\<close>, \<open>None\<close> when there is no table), the rows of all its
  tables (\<open>soup.select("table tr")\<close>), its text nodes, each with the text of its
  parent element, and its whole text.
\<close>

record row =
  anchor :: "(ustr \<times> ustr) option"
  tds :: "ustr list"

record page =
  first_table :: "row list option"
  table_rows :: "row list"
  text_nodes :: "(ustr \<times> ustr) list"
  page_text :: ustr

text \<open>
  The exceptions that leave a function of the scrapers: those of \<open>sess.get\<close> and
  \<open>raise_for_status\<close>, the UnicodeEncodeError of \<open>str.encode\<close>, the OverflowError of
  \<open>astimezone\<close> and the ValueError of \<open>urljoin\<close>.
\<close>

datatype fetch_error = ConnectionError | HTTPError nat

datatype error = FetchFailed fetch_error | UnicodeEncodeError | OverflowError | ValueError

text \<open>
  The libraries and the configuration the scrapers run against:
  \<^item> \<open>dtparse dayfirst text\<close> is \<open>dateutil.parser.parse(text, fuzzy=True)\<close>, called
    with \<open>dayfirst=False\<close> (\<open>Some False\<close>) or without the argument (\<open>None\<close>);
    the result \<open>None\<close> is a raised exception, which every call site catches;
  \<^item> \<open>tz_shift z z' c\<close> is the arithmetic of \<open>astimezone\<close>: the wall clock in zone
    \<open>z'\<close> of the instant that reads \<open>c\<close> in zone \<open>z\<close>, or \<open>None\<close> where
    \<open>astimezone\<close> raises OverflowError (the shifted date leaves the years 1 to 9999);
  \<^item> \<open>urljoin base rel\<close> is \<open>urllib.parse.urljoin\<close>; \<open>None\<close> is its ValueError (a
    malformed reference such as \<open>http://[/x\<close>);
  \<^item> \<open>http_get url\<close> is \<open>sess.get(url)\<close> followed by \<open>raise_for_status()\<close>: the
    text of the response, or the exception;
  \<^item> \<open>soup\<close> is \<open>BeautifulSoup(html, "lxml")\<close>;
  \<^item> the other fields are the module-level settings read from the environment
    (\<open>BASE\<close> with its trailing slashes already stripped; \<open>LOCAL_TZ\<close> the zone that
    \<open>tz.gettz\<close> found, for the configured name or for Asia/Taipei) and the value of
    \<open>datetime.now(tz=LOCAL_TZ)\<close> read by \<open>build_calendar\<close>.
\<close>

record 'z world =
  dtparse :: "bool option \<Rightarrow> ustr \<Rightarrow> 'z datetime option"
  tz_shift :: "'z \<Rightarrow> 'z \<Rightarrow> civil \<Rightarrow> civil option"
  urljoin :: "ustr \<Rightarrow> ustr \<Rightarrow> ustr option"
  http_get :: "ustr \<Rightarrow> fetch_error + ustr"
  soup :: "ustr \<Rightarrow> page"
  BASE :: ustr
  LOCAL_TZ :: 'z
  now :: civil
  COURSE_IDS :: "ustr list"
  HOMEWORK_URLS :: "ustr list"
  DEEP_FETCH :: bool

text \<open>
  Both scrapers localise a parsed date the same way
  (\<open>parse_assign_table\<close>, lines 132-135; NCHU \<open>build_calendar\<close>, lines 163-166),
  outside any \<open>try\<close> of the function:
  \<^verbatim>\<open>
  if dt.tzinfo is None: dt = dt.replace(tzinfo=LOCAL_TZ)
  else:                 dt = dt.astimezone(LOCAL_TZ)
  \<close>
\<close>

definition to_local :: "'z world \<Rightarrow> 'z datetime \<Rightarrow> error + 'z datetime" where
  "to_local E dt =
     (case tzinfo dt of
        None \<Rightarrow> Inr (dt\<lparr>tzinfo := Some (LOCAL_TZ E)\<rparr>)
      | Some z \<Rightarrow>
          (case tz_shift E z (LOCAL_TZ E) (wall dt) of
             None \<Rightarrow> Inl OverflowError
           | Some c \<Rightarrow> Inr \<lparr>wall = c, tzinfo = Some (LOCAL_TZ E)\<rparr>))"

text \<open>\<open>urljoin\<close> with its exception as a value.\<close>

definition urljoin_or_raise :: "'z world \<Rightarrow> ustr \<Rightarrow> ustr \<Rightarrow> error + ustr" where
  "urljoin_or_raise E base rel =
     (case urljoin E base rel of None \<Rightarrow> Inl ValueError | Some u \<Rightarrow> Inr u)"

text \<open>
  A \<open>for\<close> loop that appends to a list. \<open>body x\<close> is the exception that the pass
  for \<open>x\<close> raises, or what the pass appends (\<open>None\<close>: it ends in \<open>continue\<close>). An
  exception ends the loop, and what was appended before it is lost with the list.
\<close>

fun for_append :: "('a \<Rightarrow> error + 'b option) \<Rightarrow> 'a list \<Rightarrow> error + 'b list" where
  "for_append body [] = Inr []"
| "for_append body (x # xs) =
     (case body x of
        Inl e \<Rightarrow> Inl e
      | Inr r \<Rightarrow>
          (case for_append body xs of
             Inl e \<Rightarrow> Inl e
           | Inr ys \<Rightarrow> Inr (case r of None \<Rightarrow> ys | Some y \<Rightarrow> y # ys)))"

text \<open>
  A calendar event. An alarm is its trigger, in minutes relative to the start. The
  calendar is the list of the events added to it, in the order of the additions.
\<close>

record 'z cal_event =
  ev_name :: ustr
  ev_begin :: "'z datetime"
  ev_end :: "'z datetime"
  ev_created :: "'z datetime"
  ev_last_modified :: "'z datetime"
  ev_url :: ustr
  ev_description :: ustr
  ev_uid :: ustr
  ev_alarms :: "int list"

definition sha1_hexdigest_utf8 :: "ustr \<Rightarrow> ustr option" where
  "sha1_hexdigest_utf8 s = map_option (\<lambda>b. hexdigest (sha1 b)) (utf8_encode s)"


section \<open>The Moodle scraper (ilearning_to_ics.py)\<close>

text \<open>\<open>r"(due|U+622A U+6B62|U+7E73 U+4EA4|U+671F U+9650|U+5230 U+671F)"\<close>, flag \<open>re.I\<close>.\<close>

definition kw_re_moodle :: re where
  "kw_re_moodle = alts [Lit (asc ''due''), Lit jiezhi, Lit jiaojiao, Lit qixian, Lit daoqi]"

text \<open>\<open>r"(\d{4}[/-]\d{1,2}[/-]\d{1,2}([ T]\d{1,2}:\d{2})?)"\<close>; group 1 is the whole match.\<close>

definition date_re_moodle :: re where
  "date_re_moodle =
     seqs [Rep 4 4 Digit, Cls (OneOf (asc ''/-'')), Rep 1 2 Digit, Cls (OneOf (asc ''/-'')),
           Rep 1 2 Digit,
           Opt (seqs [Cls (OneOf (asc '' T'')), Rep 1 2 Digit, Lit (asc '':''), Rep 2 2 Digit])]"

text \<open>
  \<open>r"^(Due date|U+622A U+6B62|U+7E73 U+4EA4 U+671F U+9650|U+5230 U+671F)[:U+FF1A]?\s*"\<close>,
  flag \<open>re.I\<close>.
\<close>

definition prefix_re_moodle :: re where
  "prefix_re_moodle =
     seqs [Bol, alts [Lit (asc ''Due date''), Lit jiezhi, Lit (jiaojiao @ qixian), Lit daoqi],
           Opt (Cls (OneOf [58, fwcolon])), Many Space]"

definition has_kw_moodle :: "ustr \<Rightarrow> bool" where
  "has_kw_moodle t = (re_search True kw_re_moodle t \<noteq> None)"

text \<open>
  Lines 111-122 of \<open>parse_assign_table\<close>: the due text of a row, \<open>None\<close> where the
  source skips the row (\<open>continue\<close>).
\<close>

definition due_text_moodle :: "ustr list \<Rightarrow> ustr option" where
  "due_text_moodle cells =
     (let due_text = (case find has_kw_moodle (rev cells) of Some t \<Rightarrow> t | None \<Rightarrow> []);
          due_text =
            (if due_text = [] then
               (case re_search False date_re_moodle (join (asc '' '') cells) of
                  Some m \<Rightarrow> m
                | None \<Rightarrow> due_text)
             else due_text)
      in if due_text = [] then None else Some due_text)"

record 'z assignment =
  title :: ustr
  due_at :: "'z datetime"
  url :: ustr
  course_id :: ustr

text \<open>
  The body of the loop over the rows (lines 104-143): what the row appends, or the
  exception of \<open>astimezone\<close> (line 135) or of \<open>urljoin\<close> (line 137), which leaves
  \<open>parse_assign_table\<close>. The exception of the date parser is caught (lines 128-131).
\<close>

definition parse_row_moodle :: "'z world \<Rightarrow> ustr \<Rightarrow> row \<Rightarrow> error + 'z assignment option" where
  "parse_row_moodle E cid tr =
     (case anchor tr of
        None \<Rightarrow> Inr None
      | Some (href, a_text) \<Rightarrow>
          if \<not> contains href (asc ''mod/assign'') then Inr None
          else
            (case due_text_moodle (tds tr) of
               None \<Rightarrow> Inr None
             | Some due_text \<Rightarrow>
                 (case dtparse E (Some False) (re_sub_empty True prefix_re_moodle due_text) of
                    None \<Rightarrow> Inr None
                  | Some dt \<Rightarrow>
                      (case to_local E dt of
                         Inl e \<Rightarrow> Inl e
                       | Inr dt' \<Rightarrow>
                           (case urljoin_or_raise E (BASE E @ asc ''/'') (lstrip_slash href) of
                              Inl e \<Rightarrow> Inl e
                            | Inr u \<Rightarrow>
                                Inr (Some \<lparr>title = a_text, due_at = dt', url = u,
                                           course_id = cid\<rparr>))))))"

definition parse_assign_table :: "'z world \<Rightarrow> ustr \<Rightarrow> ustr \<Rightarrow> error + 'z assignment list" where
  "parse_assign_table E html cid =
     (case first_table (soup E html) of
        None \<Rightarrow> Inr []
      | Some rows \<Rightarrow> for_append (parse_row_moodle E cid) rows)"

definition fetch_course_assignments :: "'z world \<Rightarrow> ustr \<Rightarrow> error + 'z assignment list" where
  "fetch_course_assignments E cid =
     (case urljoin_or_raise E (BASE E) (asc ''/mod/assign/index.php?id='' @ cid) of
        Inl e \<Rightarrow> Inl e
      | Inr u \<Rightarrow>
          (case http_get E u of
             Inl e \<Rightarrow> Inl (FetchFailed e)
           | Inr html \<Rightarrow> parse_assign_table E html cid))"

definition stable_uid :: "ustr \<Rightarrow> ustr option" where
  "stable_uid s = map_option (\<lambda>h. h @ asc ''@ilearning-ics'') (sha1_hexdigest_utf8 s)"

text \<open>
  The body of the loop of \<open>build_calendar\<close>. The description is U+4F86 U+6E90 ": "
  url, a backslash and an "n" (the source writes \<open>\\n\<close>), U+8AB2 U+7A0B "ID: "
  course id. Only \<open>stable_uid\<close> can raise.
\<close>

definition event_of_moodle :: "'z world \<Rightarrow> 'z assignment \<Rightarrow> error + 'z cal_event" where
  "event_of_moodle E ev =
     (case stable_uid (url ev @ title ev) of
        None \<Rightarrow> Inl UnicodeEncodeError
      | Some u \<Rightarrow>
          Inr \<lparr>ev_name = asc ''[iLearning] '' @ title ev,
               ev_begin = due_at ev, ev_end = due_at ev,
               ev_created = \<lparr>wall = now E, tzinfo = Some (LOCAL_TZ E)\<rparr>,
               ev_last_modified = \<lparr>wall = now E, tzinfo = Some (LOCAL_TZ E)\<rparr>,
               ev_url = url ev,
               ev_description =
                 [20358, 28304] @ asc '': '' @ url ev @ [92, 110] @ [35506, 31243] @ asc ''ID: ''
                 @ course_id ev,
               ev_uid = u,
               ev_alarms = [- 1440, - 180]\<rparr>)"

fun build_calendar_moodle :: "'z world \<Rightarrow> 'z assignment list \<Rightarrow> error + 'z cal_event list" where
  "build_calendar_moodle E [] = Inr []"
| "build_calendar_moodle E (ev # evs) =
     (case event_of_moodle E ev of
        Inl x \<Rightarrow> Inl x
      | Inr e \<Rightarrow>
          (case build_calendar_moodle E evs of
             Inl x \<Rightarrow> Inl x
           | Inr es \<Rightarrow> Inr (e # es)))"

text \<open>
  The loop of \<open>main\<close> over the courses (lines 180-187), with what it prints. Every
  exception of \<open>fetch_course_assignments\<close> is caught there and printed as a
  warning. Logging in and writing the file are not modelled.
\<close>

datatype log_line =
    Fetching ustr
  | Found nat
  | WarnFailedCourse ustr error

fun collect_moodle :: "'z world \<Rightarrow> ustr list \<Rightarrow> 'z assignment list \<times> log_line list" where
  "collect_moodle E [] = ([], [])"
| "collect_moodle E (cid # cids) =
     (case collect_moodle E cids of
        (all_events, lg) \<Rightarrow>
          (case fetch_course_assignments E cid of
             Inr evs \<Rightarrow> (evs @ all_events, Fetching cid # Found (length evs) # lg)
           | Inl e \<Rightarrow> (all_events, Fetching cid # WarnFailedCourse cid e # lg)))"

definition main_moodle :: "'z world \<Rightarrow> (error + 'z cal_event list) \<times> log_line list" where
  "main_moodle E =
     (case collect_moodle E (COURSE_IDS E) of
        (all_events, lg) \<Rightarrow> (build_calendar_moodle E all_events, lg))"


section \<open>The NCHU scraper (ilearning_to_ics_nchu.py)\<close>

text \<open>\<open>to_abs\<close> (lines 55-58); the exception is the one of \<open>urljoin\<close>.\<close>

definition to_abs :: "'z world \<Rightarrow> ustr \<Rightarrow> error + ustr" where
  "to_abs E url_or_path =
     (if startswith url_or_path (asc ''http'') then Inr url_or_path
      else urljoin_or_raise E (BASE E @ asc ''/'') (lstrip_slash url_or_path))"

text \<open>
  \<open>r"(U+7E73 U+4EA4 U+671F U+9650|U+622A U+6B62|U+5230 U+671F|Due|U+622A U+6B62 U+6642 U+9593)[:U+FF1A]?\s*"\<close>,
  flag \<open>re.I\<close>, not anchored.
\<close>

definition label_re_nchu :: re where
  "label_re_nchu =
     seqs [alts [Lit (jiaojiao @ qixian), Lit jiezhi, Lit daoqi, Lit (asc ''Due''),
                 Lit (jiezhi @ shijian)],
           Opt (Cls (OneOf [58, fwcolon])), Many Space]"

text \<open>\<open>r"\d{4}[/-]\d{1,2}[/-]\d{1,2}(?:\s+\d{1,2}:\d{2})?"\<close>.\<close>

definition date_re_nchu :: re where
  "date_re_nchu =
     seqs [Rep 4 4 Digit, Cls (OneOf (asc ''/-'')), Rep 1 2 Digit, Cls (OneOf (asc ''/-'')),
           Rep 1 2 Digit,
           Opt (seqs [Many1 Space, Rep 1 2 Digit, Lit (asc '':''), Rep 2 2 Digit])]"

text \<open>\<open>r"(U+7E73 U+4EA4 U+671F U+9650|U+622A U+6B62|U+5230 U+671F|Due)"\<close>, flag \<open>re.I\<close>.\<close>

definition kw_re_nchu :: re where
  "kw_re_nchu = alts [Lit (jiaojiao @ qixian), Lit jiezhi, Lit daoqi, Lit (asc ''Due'')]"

definition has_kw_nchu :: "ustr \<Rightarrow> bool" where
  "has_kw_nchu t = (re_search True kw_re_nchu t \<noteq> None)"

text \<open>\<open>parse_due\<close> (lines 92-108); both calls of the date parser are inside a \<open>try\<close>.\<close>

definition parse_due :: "'z world \<Rightarrow> ustr \<Rightarrow> 'z datetime option" where
  "parse_due E text =
     (let txt = re_sub_empty True label_re_nchu text in
      case dtparse E (Some False) txt of
        Some dt \<Rightarrow> Some dt
      | None \<Rightarrow>
          (case re_search False date_re_nchu txt of
             Some m \<Rightarrow> dtparse E None m
           | None \<Rightarrow> None))"

text \<open>Lines 128-135 of \<open>parse_list_page\<close>: the text handed to \<open>parse_due\<close>.\<close>

definition due_text_nchu :: "ustr list \<Rightarrow> ustr" where
  "due_text_nchu cells =
     (case find has_kw_nchu (rev cells) of
        Some t \<Rightarrow> if t = [] then join (asc '' '') cells else t
      | None \<Rightarrow> join (asc '' '') cells)"

type_synonym 'z item = "ustr \<times> 'z datetime option \<times> ustr"

text \<open>
  The body of the loop over the rows (lines 116-138): the candidate the row appends,
  or the exception of \<open>urljoin\<close> (line 137), which leaves \<open>parse_list_page\<close>.
\<close>

definition parse_row_nchu :: "'z world \<Rightarrow> ustr \<Rightarrow> row \<Rightarrow> error + 'z item option" where
  "parse_row_nchu E list_url tr =
     (case anchor tr of
        None \<Rightarrow> Inr None
      | Some (href, a_text) \<Rightarrow>
          if \<not> contains href (asc ''/course/homework/content'')
               \<and> \<not> contains href (asc ''/homework/content'')
               \<and> \<not> contains href (asc ''/homework'')
          then Inr None
          else
            (let dt = parse_due E (due_text_nchu (tds tr)) in
             case urljoin_or_raise E list_url href of
               Inl e \<Rightarrow> Inl e
             | Inr detail_url \<Rightarrow> Inr (Some (a_text, dt, detail_url))))"

definition parse_list_page :: "'z world \<Rightarrow> ustr \<Rightarrow> ustr \<Rightarrow> error + 'z item list" where
  "parse_list_page E html list_url =
     for_append (parse_row_nchu E list_url) (table_rows (soup E html))"

definition parse_detail_due :: "'z world \<Rightarrow> ustr \<Rightarrow> 'z datetime option" where
  "parse_detail_due E html =
     (let pg = soup E html;
          candidates =
            map (\<lambda>(block, parent_text). if parent_text \<noteq> [] then parent_text else block)
              (filter (\<lambda>(block, parent_text). has_kw_nchu block) (text_nodes pg));
          text = (if candidates \<noteq> [] then join (asc '' '') candidates else page_text pg)
      in parse_due E text)"

text \<open>Line 175: \<open>hashlib.sha1(s.encode("utf-8")).hexdigest() + "@eeclass-ics"\<close>.\<close>

definition uid_nchu :: "ustr \<Rightarrow> ustr option" where
  "uid_nchu s = map_option (\<lambda>h. h @ asc ''@eeclass-ics'') (sha1_hexdigest_utf8 s)"

text \<open>
  The body of the loop of \<open>build_calendar\<close> for an item with a due date (lines
  163-177): first the date is localised, then the event is filled in; the
  exceptions are the one of \<open>astimezone\<close> (line 166) and the one of \<open>encode\<close>
  (line 175).
\<close>

definition event_of_nchu :: "'z world \<Rightarrow> ustr \<Rightarrow> 'z datetime \<Rightarrow> ustr \<Rightarrow> error + 'z cal_event" where
  "event_of_nchu E ttl due u =
     (case to_local E due of
        Inl e \<Rightarrow> Inl e
      | Inr due' \<Rightarrow>
          (case uid_nchu (u @ ttl) of
             None \<Rightarrow> Inl UnicodeEncodeError
           | Some uid \<Rightarrow>
               Inr \<lparr>ev_name = asc ''[iLearning] '' @ ttl,
                    ev_begin = due', ev_end = due',
                    ev_created = \<lparr>wall = now E, tzinfo = Some (LOCAL_TZ E)\<rparr>,
                    ev_last_modified = \<lparr>wall = now E, tzinfo = Some (LOCAL_TZ E)\<rparr>,
                    ev_url = u,
                    ev_description = [20358, 28304] @ asc '': '' @ u,
                    ev_uid = uid,
                    ev_alarms = [- 1440, - 180]\<rparr>))"

fun build_calendar_nchu :: "'z world \<Rightarrow> 'z item list \<Rightarrow> error + 'z cal_event list" where
  "build_calendar_nchu E [] = Inr []"
| "build_calendar_nchu E ((ttl, None, u) # evs) = build_calendar_nchu E evs"
| "build_calendar_nchu E ((ttl, Some due, u) # evs) =
     (case event_of_nchu E ttl due u of
        Inl x \<Rightarrow> Inl x
      | Inr e \<Rightarrow>
          (case build_calendar_nchu E evs of
             Inl x \<Rightarrow> Inl x
           | Inr es \<Rightarrow> Inr (e # es)))"

text \<open>
  The deep fetch of one candidate (lines 195-204 of \<open>main\<close>):
  \<^verbatim>\<open>
  if dt0 is None:
      try:
          rr = sess.get(url); rr.raise_for_status()
          dt1 = parse_detail_due(rr.text) or dt0
      except Exception:
          dt1 = dt0
  else:
      dt1 = dt0
  enriched.append((title, dt1, url))
  \<close>
\<close>

fun enrich1 :: "'z world \<Rightarrow> 'z item \<Rightarrow> 'z item" where
  "enrich1 E (ttl, None, u) =
     (case http_get E u of
        Inl e \<Rightarrow> (ttl, None, u)
      | Inr html \<Rightarrow>
          (ttl, (case parse_detail_due E html of Some d \<Rightarrow> Some d | None \<Rightarrow> None), u))"
| "enrich1 E (ttl, Some dt0, u) = (ttl, Some dt0, u)"

fun enrich :: "'z world \<Rightarrow> 'z item list \<Rightarrow> 'z item list" where
  "enrich E [] = []"
| "enrich E (it # items) = enrich1 E it # enrich E items"

text \<open>
  One pass of the loop of \<open>main\<close> over the listing pages (lines 185-210): the
  candidates the pass adds to \<open>all_events\<close>, or the exception that leaves it. No
  \<open>try\<close> surrounds \<open>to_abs\<close>, the fetch of the listing or \<open>parse_list_page\<close>.
\<close>

definition page_items :: "'z world \<Rightarrow> ustr \<Rightarrow> error + 'z item list" where
  "page_items E u =
     (case to_abs E u of
        Inl e \<Rightarrow> Inl e
      | Inr absu \<Rightarrow>
          (case http_get E absu of
             Inl e \<Rightarrow> Inl (FetchFailed e)
           | Inr html \<Rightarrow>
               (case parse_list_page E html absu of
                  Inl e \<Rightarrow> Inl e
                | Inr items \<Rightarrow>
                    (let items = (if DEEP_FETCH E then enrich E items else items)
                     in Inr (filter (\<lambda>(t, d, u'). t \<noteq> []) items)))))"

fun collect_nchu :: "'z world \<Rightarrow> ustr list \<Rightarrow> error + 'z item list" where
  "collect_nchu E [] = Inr []"
| "collect_nchu E (u # us) =
     (case page_items E u of
        Inl e \<Rightarrow> Inl e
      | Inr items \<Rightarrow>
          (case collect_nchu E us of
             Inl x \<Rightarrow> Inl x
           | Inr all_events \<Rightarrow> Inr (items @ all_events)))"

definition main_nchu :: "'z world \<Rightarrow> error + 'z cal_event list" where
  "main_nchu E =
     (case collect_nchu E (HOMEWORK_URLS E) of
        Inl e \<Rightarrow> Inl e
      | Inr all_events \<Rightarrow> build_calendar_nchu E all_events)"


section \<open>A sample site\<close>

text \<open>
  A concrete world to run the scrapers in. It has one time zone. Its date parser
  knows the texts of \<open>sample_dates\<close>, with the dates that dateutil gives them (the
  fuzzy parse skips the words "date:"; it reads 03/04/2025 month first), and fails
  on every other text. Its \<open>urljoin\<close> is right for the links of this site: an
  absolute link replaces the base, a relative one is appended to a base that is a
  bare host or ends with a slash, and a link that opens an IPv6 host and does not
  close it is refused. A page is served under its address, and the text of the
  response is that address.
\<close>

definition civ :: "int \<Rightarrow> int \<Rightarrow> int \<Rightarrow> int \<Rightarrow> int \<Rightarrow> civil" where
  "civ y mo d h mi = \<lparr>c_year = y, c_month = mo, c_day = d, c_hour = h, c_minute = mi\<rparr>"

definition sample_dates :: "((bool option \<times> ustr) \<times> civil) list" where
  "sample_dates =
     [((Some False, asc ''2025-12-01 23:59''), civ 2025 12 1 23 59),
      ((Some False, asc ''2025-09-20 23:59''), civ 2025 9 20 23 59),
      ((Some False, asc ''date: 2025-09-20 23:59''), civ 2025 9 20 23 59),
      ((Some False, asc ''2025/11/03 18:00''), civ 2025 11 3 18 0),
      ((Some False, asc ''2025-10-01 12:00''), civ 2025 10 1 12 0),
      ((Some False, asc ''03/04/2025''), civ 2025 3 4 0 0),
      ((None, asc ''2025-09-20 23:59''), civ 2025 9 20 23 59)]"

definition sample_parse :: "bool option \<Rightarrow> ustr \<Rightarrow> unit datetime option" where
  "sample_parse dayfirst text =
     map_option (\<lambda>c. \<lparr>wall = c, tzinfo = None\<rparr>) (map_of sample_dates (dayfirst, text))"

definition listing :: "row list \<Rightarrow> page" where
  "listing rows = \<lparr>first_table = Some rows, table_rows = rows, text_nodes = [], page_text = []\<rparr>"

definition row_essay :: row where
  "row_essay =
     \<lparr>anchor = Some (asc ''/mod/assign/view.php?id=7'', asc ''Essay 1''),
      tds = [asc ''CourseX'', asc ''Essay 1'', asc ''Submitted: none'',
             asc ''Due date: 2025-12-01 23:59'']\<rparr>"

definition row_forum :: row where
  "row_forum =
     \<lparr>anchor = Some (asc ''/mod/forum/view.php?id=3'', asc ''News''),
      tds = [asc ''News'', asc ''2025-09-20 23:59'']\<rparr>"

definition row_icon :: row where
  "row_icon =
     \<lparr>anchor = Some (asc ''/mod/assign/view.php?id=8'', []),
      tds = [[], asc ''Due date: 2025-09-20 23:59'']\<rparr>"

definition row_lab :: row where
  "row_lab =
     \<lparr>anchor = Some (asc ''/mod/assign/view.php?id=9'', asc ''Lab report''),
      tds = [asc ''Lab report'', asc ''2025/11/03 18:00'', asc ''-'']\<rparr>"

definition row_quiz :: row where
  "row_quiz =
     \<lparr>anchor = Some (asc ''/mod/assign/view.php?id=10'', asc ''Quiz''),
      tds = [asc ''Quiz'', asc ''Due: soon'']\<rparr>"

definition row_hw_a :: row where
  "row_hw_a =
     \<lparr>anchor = Some (asc ''https://lms.example/course/homework/content/5'', asc ''HW A''),
      tds = [asc ''HW A'', jiezhi @ [fwcolon] @ asc ''2025-09-20 23:59'']\<rparr>"

definition row_hw_b :: row where
  "row_hw_b =
     \<lparr>anchor = Some (asc ''https://lms.example/course/homework/content/6'', asc ''HW B''),
      tds = [asc ''HW B'', asc ''-'']\<rparr>"

definition row_hw_c :: row where
  "row_hw_c =
     \<lparr>anchor = Some (asc ''https://lms.example/course/homework/content/7'', asc ''HW C''),
      tds = [asc ''HW C'']\<rparr>"

definition row_hw_d :: row where
  "row_hw_d =
     \<lparr>anchor = Some (asc ''https://lms.example/course/homework/content/9'', asc ''HW D''),
      tds = [asc ''HW D'', asc ''-'']\<rparr>"

definition row_hw_icon :: row where
  "row_hw_icon =
     \<lparr>anchor = Some (asc ''https://lms.example/course/homework/content/8'', []),
      tds = [[], asc ''Due: 2025-09-20 23:59'']\<rparr>"

definition detail_hw_c :: page where
  "detail_hw_c =
     \<lparr>first_table = None, table_rows = [],
      text_nodes = [(asc ''HW C'', asc ''HW C''),
                    (jiaojiao @ qixian, jiaojiao @ qixian @ asc '' 2025-10-01 12:00'')],
      page_text = asc ''HW C '' @ jiaojiao @ qixian @ asc '' 2025-10-01 12:00''\<rparr>"

definition detail_hw_d :: page where
  "detail_hw_d =
     \<lparr>first_table = None, table_rows = [],
      text_nodes = [(asc ''HW D'', asc ''HW D''), (asc ''No deadline'', asc ''No deadline'')],
      page_text = asc ''HW D No deadline''\<rparr>"

definition sample_site :: "(ustr \<times> page) list" where
  "sample_site =
     [(asc ''https://lms.example/mod/assign/index.php?id=101'',
         listing [row_essay, row_forum, row_icon, row_lab, row_quiz]),
      (asc ''https://lms.example/mod/assign/index.php?id=103'', listing [row_lab]),
      (asc ''https://lms.example/course/homework/1'',
         listing [row_hw_a, row_hw_b, row_hw_c, row_hw_d, row_hw_icon]),
      (asc ''https://lms.example/course/homework/content/7'', detail_hw_c),
      (asc ''https://lms.example/course/homework/content/9'', detail_hw_d)]"

definition sample_world :: "unit world" where
  "sample_world =
     \<lparr>dtparse = sample_parse,
      tz_shift = (\<lambda>z z' c. Some c),
      urljoin = (\<lambda>base rel.
        if startswith rel (asc ''http://['') then None
        else Some (if startswith rel (asc ''http'') then rel else base @ rel)),
      http_get = (\<lambda>u. case map_of sample_site u of
                         None \<Rightarrow> Inl (HTTPError 404)
                       | Some p \<Rightarrow> Inr u),
      soup = (\<lambda>html. case map_of sample_site html of
                         None \<Rightarrow> \<lparr>first_table = None, table_rows = [], text_nodes = [],
                                  page_text = []\<rparr>
                       | Some p \<Rightarrow> p),
      BASE = asc ''https://lms.example'',
      LOCAL_TZ = (),
      now = civ 2025 9 1 8 0,
      COURSE_IDS = [asc ''101'', asc ''102'', asc ''103''],
      HOMEWORK_URLS = [asc ''/course/homework/1''],
      DEEP_FETCH = True\<rparr>"


text \<open>The candidates of the homework listing.\<close>

definition item_a :: "unit item" where
  "item_a = (asc ''HW A'', Some \<lparr>wall = civ 2025 9 20 23 59, tzinfo = None\<rparr>,
             asc ''https://lms.example/course/homework/content/5'')"

definition item_b :: "unit item" where
  "item_b = (asc ''HW B'', None, asc ''https://lms.example/course/homework/content/6'')"

definition item_c :: "unit item" where
  "item_c = (asc ''HW C'', None, asc ''https://lms.example/course/homework/content/7'')"

definition item_d :: "unit item" where
  "item_d = (asc ''HW D'', None, asc ''https://lms.example/course/homework/content/9'')"

definition item_icon :: "unit item" where
  "item_icon = ([], Some \<lparr>wall = civ 2025 9 20 23 59, tzinfo = None\<rparr>,
                asc ''https://lms.example/course/homework/content/8'')"

text \<open>Two assignments that differ in url and title and agree on url + title.\<close>

definition pair_ab_c :: "unit assignment" where
  "pair_ab_c =
     \<lparr>title = asc ''c'', due_at = \<lparr>wall = civ 2025 9 20 23 59, tzinfo = Some ()\<rparr>,
      url = asc ''ab'', course_id = asc ''101''\<rparr>"

definition pair_a_bc :: "unit assignment" where
  "pair_a_bc =
     \<lparr>title = asc ''bc'', due_at = \<lparr>wall = civ 2025 12 1 23 59, tzinfo = Some ()\<rparr>,
      url = asc ''a'', course_id = asc ''103''\<rparr>"

text \<open>
  The assignment of the row \<open>row_lab\<close>, a world whose only course is the one
  with that row, the event that the Moodle scraper builds there, and the event that
  the NCHU scraper builds for \<open>item_a\<close>.
\<close>

definition asg_lab :: "unit assignment" where
  "asg_lab =
     \<lparr>title = asc ''Lab report'', due_at = \<lparr>wall = civ 2025 11 3 18 0, tzinfo = Some ()\<rparr>,
      url = asc ''https://lms.example/mod/assign/view.php?id=9'', course_id = asc ''103''\<rparr>"

definition lab_world :: "unit world" where
  "lab_world = sample_world\<lparr>COURSE_IDS := [asc ''103'']\<rparr>"

definition event_lab :: "unit cal_event" where
  "event_lab =
     \<lparr>ev_name = asc ''[iLearning] Lab report'',
      ev_begin = \<lparr>wall = civ 2025 11 3 18 0, tzinfo = Some ()\<rparr>,
      ev_end = \<lparr>wall = civ 2025 11 3 18 0, tzinfo = Some ()\<rparr>,
      ev_created = \<lparr>wall = civ 2025 9 1 8 0, tzinfo = Some ()\<rparr>,
      ev_last_modified = \<lparr>wall = civ 2025 9 1 8 0, tzinfo = Some ()\<rparr>,
      ev_url = asc ''https://lms.example/mod/assign/view.php?id=9'',
      ev_description =
        [20358, 28304] @ asc '': https://lms.example/mod/assign/view.php?id=9'' @ [92, 110]
        @ [35506, 31243] @ asc ''ID: 103'',
      ev_uid =
        hexdigest (sha1 (asc ''https://lms.example/mod/assign/view.php?id=9Lab report''))
        @ asc ''@ilearning-ics'',
      ev_alarms = [- 1440, - 180]\<rparr>"

definition event_hw_a :: "unit cal_event" where
  "event_hw_a =
     \<lparr>ev_name = asc ''[iLearning] HW A'',
      ev_begin = \<lparr>wall = civ 2025 9 20 23 59, tzinfo = Some ()\<rparr>,
      ev_end = \<lparr>wall = civ 2025 9 20 23 59, tzinfo = Some ()\<rparr>,
      ev_created = \<lparr>wall = civ 2025 9 1 8 0, tzinfo = Some ()\<rparr>,
      ev_last_modified = \<lparr>wall = civ 2025 9 1 8 0, tzinfo = Some ()\<rparr>,
      ev_url = asc ''https://lms.example/course/homework/content/5'',
      ev_description = [20358, 28304] @ asc '': https://lms.example/course/homework/content/5'',
      ev_uid =
        hexdigest (sha1 (asc ''https://lms.example/course/homework/content/5HW A''))
        @ asc ''@eeclass-ics'',
      ev_alarms = [- 1440, - 180]\<rparr>"

text \<open>
  The assignments of course 101, the candidate \<open>item_c\<close> after its deep fetch, and
  a world whose first listing page is not served.
\<close>

definition asg_essay :: "unit assignment" where
  "asg_essay =
     \<lparr>title = asc ''Essay 1'', due_at = \<lparr>wall = civ 2025 12 1 23 59, tzinfo = Some ()\<rparr>,
      url = asc ''https://lms.example/mod/assign/view.php?id=7'', course_id = asc ''101''\<rparr>"

definition asg_icon :: "unit assignment" where
  "asg_icon =
     \<lparr>title = [], due_at = \<lparr>wall = civ 2025 9 20 23 59, tzinfo = Some ()\<rparr>,
      url = asc ''https://lms.example/mod/assign/view.php?id=8'', course_id = asc ''101''\<rparr>"

definition asg_lab_101 :: "unit assignment" where
  "asg_lab_101 = asg_lab\<lparr>course_id := asc ''101''\<rparr>"

definition item_c_resolved :: "unit item" where
  "item_c_resolved =
     (asc ''HW C'', Some \<lparr>wall = civ 2025 10 1 12 0, tzinfo = None\<rparr>,
      asc ''https://lms.example/course/homework/content/7'')"

definition broken_first :: "ustr list" where
  "broken_first = [asc ''/course/homework/404'', asc ''/course/homework/1'']"

definition broken_world :: "unit world" where
  "broken_world = sample_world\<lparr>HOMEWORK_URLS := broken_first\<rparr>"

text \<open>
  The same due date with an English label and with a Chinese one (U+622A U+6B62 and
  the full-width colon).
\<close>

definition due_english :: ustr where
  "due_english = asc ''Due date: 2025-09-20 23:59''"

definition due_chinese :: ustr where
  "due_chinese = jiezhi @ [fwcolon] @ asc ''2025-09-20 23:59''"

text \<open>A parser that, unlike \<open>sample_parse\<close>, fails on the text that begins with "date:".\<close>

definition strict_world :: "unit world" where
  "strict_world =
     sample_world\<lparr>dtparse := (\<lambda>dayfirst text.
        if text = asc ''date: 2025-09-20 23:59'' then None else sample_parse dayfirst text)\<rparr>"

text \<open>
  A parser that fails where \<open>dayfirst\<close> is given and answers as \<open>sample_parse\<close> does
  where it is not: in this world only the fallback parse of \<open>parse_due\<close> can give
  a date.
\<close>

definition fallback_only_world :: "unit world" where
  "fallback_only_world =
     sample_world\<lparr>dtparse := (\<lambda>dayfirst text.
        case dayfirst of None \<Rightarrow> sample_parse (Some False) text | Some b \<Rightarrow> None)\<rparr>"



section \<open>Evaluating the model\<close>

lemmas str_defs = asc_def jiezhi_def jiaojiao_def qixian_def daoqi_def shijian_def fwcolon_def

lemmas cls_defs = chr_eq_def lower_def is_digit_def is_space_def nd_starts_def

lemmas re_defs = prefix_re_moodle_def kw_re_moodle_def date_re_moodle_def label_re_nchu_def
  kw_re_nchu_def date_re_nchu_def re_sub_empty_def re_search_def match_at_def
  has_kw_moodle_def has_kw_nchu_def

lemma rep_match_numeral_Nil:
  "rep_match ic c m (numeral n) [] k = (if m = 0 then k [] else None)"
  by (simp add: numeral_eq_Suc)

lemma rep_match_numeral_Cons:
  "rep_match ic c m (numeral n) (x # xs) k =
     (if in_cls ic c x then
        (case rep_match ic c (m - 1) (pred_numeral n) xs k of
           Some r \<Rightarrow> Some r
         | None \<Rightarrow> if m = 0 then k (x # xs) else None)
      else if m = 0 then k (x # xs) else None)"
  by (simp add: numeral_eq_Suc)

lemma rep_match_one_Nil:
  "rep_match ic c m 1 [] k = (if m = 0 then k [] else None)"
  using rep_match.simps(2) [of ic c m 0 k] by simp

lemma rep_match_one_Cons:
  "rep_match ic c m 1 (x # xs) k =
     (if in_cls ic c x then
        (case rep_match ic c (m - 1) 0 xs k of
           Some r \<Rightarrow> Some r
         | None \<Rightarrow> if m = 0 then k (x # xs) else None)
      else if m = 0 then k (x # xs) else None)"
  using rep_match.simps(3) [of ic c m 0 x xs k] by simp

lemmas rep_simps = rep_match_numeral_Nil rep_match_numeral_Cons rep_match_one_Nil
  rep_match_one_Cons

lemmas sample_defs = sample_world_def sample_parse_def sample_dates_def sample_site_def
  listing_def civ_def row_essay_def row_forum_def row_icon_def row_lab_def row_quiz_def
  row_hw_a_def row_hw_b_def row_hw_c_def row_hw_d_def row_hw_icon_def detail_hw_c_def
  detail_hw_d_def item_a_def item_b_def item_c_def item_d_def item_icon_def pair_ab_c_def pair_a_bc_def
  asg_lab_def lab_world_def event_lab_def event_hw_a_def
  asg_essay_def asg_icon_def asg_lab_101_def item_c_resolved_def broken_world_def strict_world_def
  due_english_def due_chinese_def
  broken_first_def
  fallback_only_world_def

lemmas ev = str_defs cls_defs re_defs rep_simps sample_defs

lemmas prog_defs = due_text_moodle_def parse_row_moodle_def to_local_def lstrip_slash_def
  urljoin_or_raise_def parse_assign_table_def fetch_course_assignments_def
  parse_due_def due_text_nchu_def parse_row_nchu_def parse_list_page_def parse_detail_due_def
  page_items_def to_abs_def


section \<open>Event identity\<close>

lemma length_hex8: "length (hex8 w) = 8"
  by (simp add: hex8_def)

lemma length_hexdigest: "length (hexdigest st) = 40"
  by (cases st) (simp add: length_hex8)

lemma nibble_less: "unat ((w :: w32) AND 15) < 16"
proof -
  have "w AND 15 \<le> 15" by (rule word_and_le1)
  then have "unat (w AND 15) \<le> unat (15 :: w32)" by (simp add: word_le_nat_alt)
  then show ?thesis by simp
qed

lemma hexdigit_range: "n < 16 \<Longrightarrow> hexdigit n \<in> set (asc ''0123456789abcdef'')"
proof (cases "n < 10")
  case True
  then have "48 + n \<in> {48..57}" by simp
  also have "{48..57} \<subseteq> set (asc ''0123456789abcdef'')"
    by (simp add: asc_def atLeastAtMost_def atLeast_def atMost_def subset_iff) arith
  finally show ?thesis using True by (simp add: hexdigit_def)
next
  case False
  assume "n < 16"
  with False have "87 + n \<in> {97..102}" by simp
  also have "{97..102} \<subseteq> set (asc ''0123456789abcdef'')"
    by (simp add: asc_def atLeastAtMost_def atLeast_def atMost_def subset_iff) arith
  finally show ?thesis using False by (simp add: hexdigit_def)
qed

lemma set_hex8: "set (hex8 w) \<subseteq> set (asc ''0123456789abcdef'')"
  unfolding hex8_def using hexdigit_range [OF nibble_less] by auto

lemma set_hexdigest: "set (hexdigest st) \<subseteq> set (asc ''0123456789abcdef'')"
  using set_hex8 by (cases st) auto

lemma uid_of_moodle:
  "map_sum id ev_uid (event_of_moodle E a) =
     (case utf8_encode (url a @ title a) of
        None \<Rightarrow> Inl UnicodeEncodeError
      | Some b \<Rightarrow> Inr (hexdigest (sha1 b) @ asc ''@ilearning-ics''))"
  by (simp add: event_of_moodle_def stable_uid_def sha1_hexdigest_utf8_def split: option.splits)

lemma uid_of_nchu:
  "map_sum id ev_uid (event_of_nchu E ttl d u) =
     (case to_local E d of
        Inl x \<Rightarrow> Inl x
      | Inr d' \<Rightarrow>
          (case utf8_encode (u @ ttl) of
             None \<Rightarrow> Inl UnicodeEncodeError
           | Some b \<Rightarrow> Inr (hexdigest (sha1 b) @ asc ''@eeclass-ics'')))"
  by (simp add: event_of_nchu_def uid_nchu_def sha1_hexdigest_utf8_def
      split: option.splits sum.splits)

text \<open>
  C1, as stated, fails: the uid is computed from the concatenation \<open>url + title\<close>
  alone, so two distinct pairs with the same concatenation, here ("ab", "c") and
  ("a", "bc"), get the same uid, the digest of "abc" with the suffix, in both
  scrapers.
\<close>

theorem uid_concat_counterexample:
  "(asc ''ab'', asc ''c'') \<noteq> (asc ''a'', asc ''bc'')
   \<and> stable_uid (asc ''ab'' @ asc ''c'')
       = Some (hexdigest (sha1 [97, 98, 99]) @ asc ''@ilearning-ics'')
   \<and> stable_uid (asc ''a'' @ asc ''bc'')
       = Some (hexdigest (sha1 [97, 98, 99]) @ asc ''@ilearning-ics'')
   \<and> uid_nchu (asc ''ab'' @ asc ''c'')
       = Some (hexdigest (sha1 [97, 98, 99]) @ asc ''@eeclass-ics'')
   \<and> uid_nchu (asc ''a'' @ asc ''bc'')
       = Some (hexdigest (sha1 [97, 98, 99]) @ asc ''@eeclass-ics'')"
  by (simp add: stable_uid_def uid_nchu_def sha1_hexdigest_utf8_def utf8_encode_def
      utf8_char_def asc_def)

text \<open>
  C1, amended. What building an event yields as its uid is determined by the
  concatenation of its url and its title: the 40 lower-case hexadecimal digits of
  the SHA-1 of the UTF-8 encoding of the concatenation, followed by the suffix of the
  scraper, \<open>@ilearning-ics\<close> or \<open>@eeclass-ics\<close>; where the concatenation cannot
  be encoded, building the event raises UnicodeEncodeError (in the NCHU scraper the
  due date is localised first, and its OverflowError comes first). So two events
  whose concatenations are equal get the same uid, in whatever world they are built
  and whatever their other fields are, even when the pairs differ.
\<close>

theorem uid_function_of_concatenation:
  fixes E :: "'z world" and E' :: "'y world"
  shows "map_sum id ev_uid (event_of_moodle E a) =
       (case utf8_encode (url a @ title a) of
          None \<Rightarrow> Inl UnicodeEncodeError
        | Some b \<Rightarrow> Inr (hexdigest (sha1 b) @ asc ''@ilearning-ics''))
    \<and> map_sum id ev_uid (event_of_nchu E ttl d u) =
       (case to_local E d of
          Inl x \<Rightarrow> Inl x
        | Inr d1 \<Rightarrow>
            (case utf8_encode (u @ ttl) of
               None \<Rightarrow> Inl UnicodeEncodeError
             | Some b \<Rightarrow> Inr (hexdigest (sha1 b) @ asc ''@eeclass-ics'')))
    \<and> length (hexdigest (sha1 bs)) = 40
    \<and> set (hexdigest (sha1 bs)) \<subseteq> set (asc ''0123456789abcdef'')
    \<and> (url a @ title a = url a' @ title a' \<longrightarrow>
         map_sum id ev_uid (event_of_moodle E a) = map_sum id ev_uid (event_of_moodle E' a'))
    \<and> (u @ ttl = u' @ ttl' \<and> to_local E d = Inr d1 \<and> to_local E' d' = Inr d1' \<longrightarrow>
         map_sum id ev_uid (event_of_nchu E ttl d u)
           = map_sum id ev_uid (event_of_nchu E' ttl' d' u'))"
  by (simp add: uid_of_moodle uid_of_nchu length_hexdigest set_hexdigest)

theorem uid_function_of_concatenation_witness:
  "url pair_ab_c @ title pair_ab_c = url pair_a_bc @ title pair_a_bc
   \<and> map_sum id ev_uid (event_of_moodle sample_world pair_ab_c)
       = Inr (hexdigest (sha1 [97, 98, 99]) @ asc ''@ilearning-ics'')
   \<and> map_sum id ev_uid (event_of_moodle fallback_only_world pair_a_bc)
       = Inr (hexdigest (sha1 [97, 98, 99]) @ asc ''@ilearning-ics'')
   \<and> asc ''ab'' @ asc ''c'' = asc ''a'' @ asc ''bc''
   \<and> to_local sample_world \<lparr>wall = civ 2025 9 20 23 59, tzinfo = None\<rparr>
       = Inr \<lparr>wall = civ 2025 9 20 23 59, tzinfo = Some ()\<rparr>
   \<and> to_local fallback_only_world \<lparr>wall = civ 2025 12 1 23 59, tzinfo = Some ()\<rparr>
       = Inr \<lparr>wall = civ 2025 12 1 23 59, tzinfo = Some ()\<rparr>
   \<and> map_sum id ev_uid (event_of_nchu sample_world (asc ''c'')
         \<lparr>wall = civ 2025 9 20 23 59, tzinfo = None\<rparr> (asc ''ab''))
       = Inr (hexdigest (sha1 [97, 98, 99]) @ asc ''@eeclass-ics'')
   \<and> map_sum id ev_uid (event_of_nchu fallback_only_world (asc ''bc'')
         \<lparr>wall = civ 2025 12 1 23 59, tzinfo = Some ()\<rparr> (asc ''a''))
       = Inr (hexdigest (sha1 [97, 98, 99]) @ asc ''@eeclass-ics'')"
proof -
  note t = uid_function_of_concatenation [where E = sample_world and E' = fallback_only_world
      and a = pair_ab_c and a' = pair_a_bc
      and u = "asc ''ab''" and ttl = "asc ''c''" and u' = "asc ''a''" and ttl' = "asc ''bc''"
      and d = "\<lparr>wall = civ 2025 9 20 23 59, tzinfo = None\<rparr>"
      and d' = "\<lparr>wall = civ 2025 12 1 23 59, tzinfo = Some ()\<rparr>"
      and ?d1.0 = "\<lparr>wall = civ 2025 9 20 23 59, tzinfo = Some ()\<rparr>"
      and d1' = "\<lparr>wall = civ 2025 12 1 23 59, tzinfo = Some ()\<rparr>"]
  have p1: "url pair_ab_c @ title pair_ab_c = url pair_a_bc @ title pair_a_bc"
    by (simp add: pair_ab_c_def pair_a_bc_def asc_def)
  have p2: "asc ''ab'' @ asc ''c'' = asc ''a'' @ asc ''bc''"
    by (simp add: asc_def)
  have p3: "to_local sample_world \<lparr>wall = civ 2025 9 20 23 59, tzinfo = None\<rparr>
       = Inr \<lparr>wall = civ 2025 9 20 23 59, tzinfo = Some ()\<rparr>"
    by (simp add: to_local_def sample_world_def)
  have p4: "to_local fallback_only_world \<lparr>wall = civ 2025 12 1 23 59, tzinfo = Some ()\<rparr>
       = Inr \<lparr>wall = civ 2025 12 1 23 59, tzinfo = Some ()\<rparr>"
    by (simp add: to_local_def sample_world_def fallback_only_world_def)
  have e: "utf8_encode (asc ''ab'' @ asc ''c'') = Some [97, 98, 99]"
    by (simp add: utf8_encode_def utf8_char_def asc_def)
  have m1: "map_sum id ev_uid (event_of_moodle sample_world pair_ab_c)
       = Inr (hexdigest (sha1 [97, 98, 99]) @ asc ''@ilearning-ics'')"
    using t e by (simp add: pair_ab_c_def)
  have m2: "map_sum id ev_uid (event_of_moodle sample_world pair_ab_c)
       = map_sum id ev_uid (event_of_moodle fallback_only_world pair_a_bc)"
    using t p1 by blast
  have n1: "map_sum id ev_uid (event_of_nchu sample_world (asc ''c'')
         \<lparr>wall = civ 2025 9 20 23 59, tzinfo = None\<rparr> (asc ''ab''))
       = Inr (hexdigest (sha1 [97, 98, 99]) @ asc ''@eeclass-ics'')"
    using t e p3 by simp
  have n2: "map_sum id ev_uid (event_of_nchu sample_world (asc ''c'')
         \<lparr>wall = civ 2025 9 20 23 59, tzinfo = None\<rparr> (asc ''ab''))
       = map_sum id ev_uid (event_of_nchu fallback_only_world (asc ''bc'')
         \<lparr>wall = civ 2025 12 1 23 59, tzinfo = Some ()\<rparr> (asc ''a''))"
    using t p2 p3 p4 by blast
  from p1 p2 p3 p4 m1 m2 n1 n2 show ?thesis by simp
qed


section \<open>Deep fetch\<close>

lemma enrich_map: "enrich E items = map (enrich1 E) items"
  by (induction items) simp_all

lemma build_calendar_nchu_drop:
  "build_calendar_nchu E (xs @ (ttl, None, u) # ys) = build_calendar_nchu E (xs @ ys)"
proof (induction xs)
  case Nil
  show ?case by simp
next
  case (Cons it xs)
  obtain t d w where it: "it = (t, d, w)" by (cases it)
  show ?case
  proof (cases d)
    case None
    then show ?thesis by (simp add: it Cons.IH)
  next
    case (Some a)
    then show ?thesis by (simp add: it Cons.IH cong: sum.case_cong)
  qed
qed

lemma sample_get_b:
  "http_get sample_world (asc ''https://lms.example/course/homework/content/6'')
     = Inl (HTTPError 404)"
  by (simp add: ev)

lemma sample_get_d:
  "http_get sample_world (asc ''https://lms.example/course/homework/content/9'')
     = Inr (asc ''https://lms.example/course/homework/content/9'')"
  by (simp add: ev)

lemma sample_detail_d:
  "parse_detail_due sample_world (asc ''https://lms.example/course/homework/content/9'') = None"
  by (simp add: ev prog_defs)

text \<open>
  C10: the deep fetch leaves a candidate whose due date the listing resolved as it
  is, at its place in the list; of the other candidates it changes at most the due
  date (titles and urls stay).
\<close>

theorem deep_fetch_keeps_resolved:
  assumes "i < length items" and "items ! i = (ttl, Some d, u)"
  shows "length (enrich E items) = length items \<and> enrich E items ! i = (ttl, Some d, u)
    \<and> map fst (enrich E items) = map fst items
    \<and> map (snd \<circ> snd) (enrich E items) = map (snd \<circ> snd) items"
proof -
  have a: "fst (enrich1 E x) = fst x \<and> snd (snd (enrich1 E x)) = snd (snd x)" for x
  proof -
    obtain t dd w where x: "x = (t, dd, w)" by (cases x)
    show ?thesis unfolding x by (cases dd) (simp_all split: sum.splits)
  qed
  have "enrich E items ! i = enrich1 E (items ! i)"
    using assms(1) by (simp add: enrich_map)
  then show ?thesis using assms(2) a by (simp add: enrich_map)
qed

theorem deep_fetch_keeps_resolved_witness:
  "(0::nat) < length [item_a, item_b, item_c]
   \<and> enrich sample_world [item_a, item_b, item_c] ! 0 = item_a
   \<and> map fst (enrich sample_world [item_a, item_b, item_c])
       = [asc ''HW A'', asc ''HW B'', asc ''HW C'']"
  using deep_fetch_keeps_resolved [of 0 "[item_a, item_b, item_c]" "asc ''HW A''"
      "\<lparr>wall = civ 2025 9 20 23 59, tzinfo = None\<rparr>"
      "asc ''https://lms.example/course/homework/content/5''" sample_world]
  by (simp add: item_a_def item_b_def item_c_def)

text \<open>
  C9: when the detail page of a candidate without a due date cannot be fetched, or
  is fetched and no due date can be parsed from it, the deep fetch returns that
  candidate unchanged, without a due date; the candidates before and after it are
  enriched as they are without it; and the calendar is built as if the candidate
  were not there.
\<close>

theorem deep_fetch_failure_is_local:
  assumes "http_get E u = Inl e \<or> (http_get E u = Inr html \<and> parse_detail_due E html = None)"
  shows "enrich1 E (ttl, None, u) = (ttl, None, u)
    \<and> enrich E (pre @ (ttl, None, u) # post) = enrich E pre @ (ttl, None, u) # enrich E post
    \<and> build_calendar_nchu E (enrich E (pre @ (ttl, None, u) # post))
        = build_calendar_nchu E (enrich E pre @ enrich E post)"
proof -
  have 1: "enrich1 E (ttl, None, u) = (ttl, None, u)"
    using assms by auto
  have 2: "enrich E (pre @ (ttl, None, u) # post) = enrich E pre @ (ttl, None, u) # enrich E post"
    using 1 by (simp add: enrich_map)
  have 3: "build_calendar_nchu E (enrich E (pre @ (ttl, None, u) # post))
        = build_calendar_nchu E (enrich E pre @ enrich E post)"
    unfolding 2 by (rule build_calendar_nchu_drop)
  from 1 2 3 show ?thesis by blast
qed

theorem deep_fetch_failure_is_local_witness:
  "http_get sample_world (asc ''https://lms.example/course/homework/content/6'')
     = Inl (HTTPError 404)
   \<and> enrich1 sample_world item_b = item_b
   \<and> enrich sample_world ([item_a] @ item_b # [item_c])
       = enrich sample_world [item_a] @ item_b # enrich sample_world [item_c]
   \<and> http_get sample_world (asc ''https://lms.example/course/homework/content/9'')
     = Inr (asc ''https://lms.example/course/homework/content/9'')
   \<and> parse_detail_due sample_world (asc ''https://lms.example/course/homework/content/9'')
     = None
   \<and> enrich1 sample_world item_d = item_d
   \<and> build_calendar_nchu sample_world (enrich sample_world ([item_a] @ item_d # [item_c]))
       = build_calendar_nchu sample_world
           (enrich sample_world [item_a] @ enrich sample_world [item_c])"
  using deep_fetch_failure_is_local [of sample_world
      "asc ''https://lms.example/course/homework/content/6''" "HTTPError 404" "[]"
      "asc ''HW B''" "[item_a]" "[item_c]"]
    deep_fetch_failure_is_local [of sample_world
      "asc ''https://lms.example/course/homework/content/9''" "HTTPError 404"
      "asc ''https://lms.example/course/homework/content/9''"
      "asc ''HW D''" "[item_a]" "[item_c]"]
  by (simp add: sample_get_b sample_get_d sample_detail_d item_b_def item_d_def)

section \<open>Due dates of the emitted events\<close>

lemma to_local_aware: "to_local E dt = Inr d \<Longrightarrow> tzinfo d = Some (LOCAL_TZ E)"
  by (auto simp: to_local_def split: option.splits)

lemma for_append_member:
  "for_append body xs = Inr ys \<Longrightarrow> y \<in> set ys \<Longrightarrow> \<exists>x\<in>set xs. body x = Inr (Some y)"
proof (induction xs arbitrary: ys)
  case Nil
  then show ?case by simp
next
  case (Cons x xs)
  then show ?case
    by (auto split: sum.splits option.splits)
qed

lemma parse_row_moodle_due:
  assumes "parse_row_moodle E cid tr = Inr (Some a)"
  shows "\<exists>txt dt. due_text_moodle (tds tr) = Some txt
    \<and> dtparse E (Some False) (re_sub_empty True prefix_re_moodle txt) = Some dt
    \<and> to_local E dt = Inr (due_at a)"
  using assms
  by (auto simp: parse_row_moodle_def split: option.splits prod.splits if_splits sum.splits)

lemma parse_assign_table_rows:
  assumes "parse_assign_table E html cid = Inr as" and "a \<in> set as"
  shows "\<exists>rows tr. first_table (soup E html) = Some rows \<and> tr \<in> set rows
    \<and> parse_row_moodle E cid tr = Inr (Some a)"
proof (cases "first_table (soup E html)")
  case None
  with assms show ?thesis by (simp add: parse_assign_table_def)
next
  case (Some rows)
  with assms have "for_append (parse_row_moodle E cid) rows = Inr as"
    by (simp add: parse_assign_table_def)
  from for_append_member [OF this assms(2)] Some show ?thesis by blast
qed

lemma fetch_course_assignments_rows:
  assumes "fetch_course_assignments E cid = Inr as" and "a \<in> set as"
  shows "\<exists>tr. parse_row_moodle E cid tr = Inr (Some a)"
proof -
  from assms(1) obtain html where "parse_assign_table E html cid = Inr as"
    by (auto simp: fetch_course_assignments_def split: sum.splits)
  from parse_assign_table_rows [OF this assms(2)] show ?thesis by blast
qed

lemma collect_moodle_member:
  "collect_moodle E cids = (as, lg) \<Longrightarrow> a \<in> set as \<Longrightarrow>
     \<exists>cid\<in>set cids. \<exists>as'. fetch_course_assignments E cid = Inr as' \<and> a \<in> set as'"
proof (induction cids arbitrary: as lg)
  case Nil
  then show ?case by simp
next
  case (Cons c cids)
  then show ?case
    by (auto split: prod.splits sum.splits)
qed

lemma build_calendar_moodle_begin:
  "build_calendar_moodle E as = Inr evs \<Longrightarrow>
     map ev_begin evs = map due_at as \<and> map ev_end evs = map due_at as"
proof (induction as arbitrary: evs)
  case Nil
  then show ?case by simp
next
  case (Cons a as)
  then show ?case
    by (auto simp: event_of_moodle_def split: option.splits sum.splits)
qed

lemma build_calendar_nchu_begin:
  "build_calendar_nchu E items = Inr evs \<Longrightarrow>
     map (\<lambda>e. Inr (ev_begin e)) evs = map (to_local E) (List.map_filter (\<lambda>(t, d, u). d) items)
     \<and> map ev_end evs = map ev_begin evs"
proof (induction E items arbitrary: evs rule: build_calendar_nchu.induct)
  case (1 E)
  then show ?case by (simp add: List.map_filter_def)
next
  case (2 E ttl u items)
  then show ?case by (simp add: List.map_filter_def)
next
  case (3 E ttl due u items)
  from "3.prems" obtain e es where e: "event_of_nchu E ttl due u = Inr e"
    and es: "build_calendar_nchu E items = Inr es" and evs: "evs = e # es"
    by (auto split: sum.splits)
  from e have b: "to_local E due = Inr (ev_begin e)" "ev_end e = ev_begin e"
    by (auto simp: event_of_nchu_def split: sum.splits option.splits)
  from "3.IH" [OF e es] b evs show ?case by (simp add: List.map_filter_def)
qed



lemma main_moodle_events:
  assumes "main_moodle E = (Inr evs, lg)" and "e \<in> set evs"
  shows "ev_end e = ev_begin e
    \<and> (\<exists>cid\<in>set (COURSE_IDS E). \<exists>tr a. parse_row_moodle E cid tr = Inr (Some a)
          \<and> ev_begin e = due_at a)"
proof -
  obtain as lg' where c: "collect_moodle E (COURSE_IDS E) = (as, lg')"
    by (cases "collect_moodle E (COURSE_IDS E)")
  with assms(1) have b: "build_calendar_moodle E as = Inr evs"
    by (simp add: main_moodle_def)
  note m = build_calendar_moodle_begin [OF b]
  from assms(2) obtain i where i: "i < length evs" "evs ! i = e"
    by (auto simp: in_set_conv_nth)
  have len: "length as = length evs" using m by (metis length_map)
  have 1: "ev_begin e = due_at (as ! i)" using m i len by (metis nth_map)
  have 2: "ev_end e = due_at (as ! i)" using m i len by (metis nth_map)
  have "as ! i \<in> set as" using i len by simp
  from collect_moodle_member [OF c this] obtain cid as'
    where cid: "cid \<in> set (COURSE_IDS E)" "fetch_course_assignments E cid = Inr as'"
      "as ! i \<in> set as'"
    by blast
  from fetch_course_assignments_rows [OF cid(2) cid(3)] obtain tr
    where "parse_row_moodle E cid tr = Inr (Some (as ! i))" by blast
  with cid(1) 1 2 show ?thesis by auto
qed

lemma utf8_encode_ascii: "list_all (\<lambda>c. c < 128) s \<Longrightarrow> utf8_encode s = Some s"
  by (induction s) (auto simp: utf8_encode_def utf8_char_def split: option.splits)

lemma sample_row_lab: "parse_row_moodle sample_world (asc ''103'') row_lab = Inr (Some asg_lab)"
  by (simp add: ev prog_defs)

lemma sample_row_quiz_text: "due_text_moodle (tds row_quiz) = Some (asc ''Due: soon'')"
  by (simp add: ev prog_defs)

lemma sample_row_quiz_parse:
  "dtparse sample_world (Some False) (re_sub_empty True prefix_re_moodle (asc ''Due: soon''))
     = None"
  by (simp add: ev prog_defs)

lemma sample_fetch_103:
  "fetch_course_assignments lab_world (asc ''103'') = Inr [asg_lab]"
  by (simp add: ev prog_defs)

lemma sample_event_lab: "event_of_moodle lab_world asg_lab = Inr event_lab"
  by (simp add: event_of_moodle_def stable_uid_def sha1_hexdigest_utf8_def utf8_encode_ascii
      asg_lab_def lab_world_def event_lab_def sample_world_def asc_def civ_def)

lemma sample_main_lab:
  "main_moodle lab_world = (Inr [event_lab], [Fetching (asc ''103''), Found 1])"
proof -
  have "COURSE_IDS lab_world = [asc ''103'']"
    by (simp add: lab_world_def)
  then show ?thesis
    by (simp add: main_moodle_def sample_fetch_103 sample_event_lab)
qed

lemma sample_event_hw_a:
  "build_calendar_nchu sample_world [item_a, item_b] = Inr [event_hw_a]"
  by (simp add: event_of_nchu_def uid_nchu_def sha1_hexdigest_utf8_def utf8_encode_ascii
      to_local_def item_a_def item_b_def event_hw_a_def sample_world_def asc_def civ_def)

text \<open>
  C2: an assignment that a row of a Moodle listing yields carries the localised date
  that the date parser read from the due text of the row, and that date is time-zone
  aware; a row whose due text the parser rejects yields nothing. Every event of the
  calendar that \<open>main\<close> builds starts and ends at the due date of an assignment
  that a row yielded. In the NCHU scraper the events of the calendar are, in order,
  those of the candidates that have a due date: each starts and ends at that date,
  localised, which is time-zone aware; a candidate without a due date gets no event.
\<close>

theorem emitted_events_have_due:
  fixes E :: "'z world"
  shows "(parse_row_moodle E cid tr = Inr (Some a) \<longrightarrow>
      tzinfo (due_at a) = Some (LOCAL_TZ E)
      \<and> (\<exists>raw dt. due_text_moodle (tds tr) = Some raw
            \<and> dtparse E (Some False) (re_sub_empty True prefix_re_moodle raw) = Some dt
            \<and> to_local E dt = Inr (due_at a)))
   \<and> (due_text_moodle (tds tr) = Some raw
        \<and> dtparse E (Some False) (re_sub_empty True prefix_re_moodle raw) = None \<longrightarrow>
      parse_row_moodle E cid tr = Inr None)
   \<and> (main_moodle E = (Inr evs, lg) \<longrightarrow>
        (\<forall>e\<in>set evs. ev_end e = ev_begin e \<and> tzinfo (ev_begin e) = Some (LOCAL_TZ E)
           \<and> (\<exists>c\<in>set (COURSE_IDS E). \<exists>r b. parse_row_moodle E c r = Inr (Some b)
                 \<and> ev_begin e = due_at b)))
   \<and> (build_calendar_nchu E items = Inr evs' \<longrightarrow>
        map (\<lambda>e. Inr (ev_begin e)) evs'
          = map (to_local E) (List.map_filter (\<lambda>(t, d, u). d) items)
        \<and> map ev_end evs' = map ev_begin evs'
        \<and> (\<forall>e\<in>set evs'. tzinfo (ev_begin e) = Some (LOCAL_TZ E)))"
proof -
  have row: "tzinfo (due_at x) = Some (LOCAL_TZ E)
      \<and> (\<exists>raw dt. due_text_moodle (tds r) = Some raw
            \<and> dtparse E (Some False) (re_sub_empty True prefix_re_moodle raw) = Some dt
            \<and> to_local E dt = Inr (due_at x))"
    if "parse_row_moodle E c r = Inr (Some x)" for c r x
    using parse_row_moodle_due [OF that] to_local_aware by blast
  have drop: "parse_row_moodle E cid tr = Inr None"
    if "due_text_moodle (tds tr) = Some raw"
      "dtparse E (Some False) (re_sub_empty True prefix_re_moodle raw) = None"
    using that by (simp add: parse_row_moodle_def split: option.splits prod.splits)
  have moodle: "ev_end e = ev_begin e \<and> tzinfo (ev_begin e) = Some (LOCAL_TZ E)
           \<and> (\<exists>c\<in>set (COURSE_IDS E). \<exists>r b. parse_row_moodle E c r = Inr (Some b)
                 \<and> ev_begin e = due_at b)"
    if "main_moodle E = (Inr evs, lg)" "e \<in> set evs" for e
  proof -
    from main_moodle_events [OF that] obtain c r b where
      *: "ev_end e = ev_begin e" "c \<in> set (COURSE_IDS E)"
      "parse_row_moodle E c r = Inr (Some b)" "ev_begin e = due_at b"
      by blast
    from row [OF *(3)] * show ?thesis by auto
  qed
  have nchu: "map (\<lambda>e. Inr (ev_begin e)) evs'
          = map (to_local E) (List.map_filter (\<lambda>(t, d, u). d) items)
        \<and> map ev_end evs' = map ev_begin evs'
        \<and> (\<forall>e\<in>set evs'. tzinfo (ev_begin e) = Some (LOCAL_TZ E))"
    if b: "build_calendar_nchu E items = Inr evs'"
  proof -
    note n = build_calendar_nchu_begin [OF b]
    have "tzinfo (ev_begin e) = Some (LOCAL_TZ E)" if "e \<in> set evs'" for e
    proof -
      from that have "(Inr (ev_begin e) :: error + 'z datetime)
          \<in> set (map (\<lambda>e. Inr (ev_begin e)) evs')" by auto
      then have "Inr (ev_begin e)
          \<in> set (map (to_local E) (List.map_filter (\<lambda>(t, d, u). d) items))"
        by (simp only: conjunct1 [OF n])
      then obtain d where "to_local E d = Inr (ev_begin e)" by auto
      then show ?thesis by (rule to_local_aware)
    qed
    with n show ?thesis by blast
  qed
  from row drop moodle nchu show ?thesis by blast
qed

theorem emitted_events_have_due_witness:
  "parse_row_moodle sample_world (asc ''103'') row_lab = Inr (Some asg_lab)
   \<and> tzinfo (due_at asg_lab) = Some (LOCAL_TZ sample_world)
   \<and> due_text_moodle (tds row_quiz) = Some (asc ''Due: soon'')
   \<and> dtparse sample_world (Some False) (re_sub_empty True prefix_re_moodle (asc ''Due: soon''))
       = None
   \<and> parse_row_moodle sample_world (asc ''101'') row_quiz = Inr None
   \<and> main_moodle lab_world = (Inr [event_lab], [Fetching (asc ''103''), Found 1])
   \<and> tzinfo (ev_begin event_lab) = Some (LOCAL_TZ lab_world)
   \<and> build_calendar_nchu sample_world [item_a, item_b] = Inr [event_hw_a]
   \<and> map ev_end [event_hw_a] = map ev_begin [event_hw_a]
   \<and> tzinfo (ev_begin event_hw_a) = Some (LOCAL_TZ sample_world)"
proof -
  note t1 = emitted_events_have_due [where E = sample_world and cid = "asc ''103''"
      and tr = row_lab and a = asg_lab]
  note t2 = emitted_events_have_due [where E = sample_world and cid = "asc ''101''"
      and tr = row_quiz and raw = "asc ''Due: soon''"]
  note t3 = emitted_events_have_due [where E = lab_world and evs = "[event_lab]"
      and lg = "[Fetching (asc ''103''), Found 1]"]
  note t4 = emitted_events_have_due [where E = sample_world and items = "[item_a, item_b]"
      and evs' = "[event_hw_a]"]
  have 1: "tzinfo (due_at asg_lab) = Some (LOCAL_TZ sample_world)"
    using t1 sample_row_lab by blast
  have 2: "parse_row_moodle sample_world (asc ''101'') row_quiz = Inr None"
    using t2 sample_row_quiz_text sample_row_quiz_parse by blast
  have 3: "tzinfo (ev_begin event_lab) = Some (LOCAL_TZ lab_world)"
    using t3 sample_main_lab by simp
  have 4: "map ev_end [event_hw_a] = map ev_begin [event_hw_a]
      \<and> tzinfo (ev_begin event_hw_a) = Some (LOCAL_TZ sample_world)"
    using t4 sample_event_hw_a by simp
  from 1 2 3 4 sample_row_lab sample_row_quiz_text sample_row_quiz_parse sample_main_lab
    sample_event_hw_a
  show ?thesis by simp
qed

section \<open>Whole runs on the sample site\<close>

lemma sample_fetch_101:
  "fetch_course_assignments sample_world (asc ''101'') = Inr [asg_essay, asg_icon, asg_lab_101]"
  by (simp add: ev prog_defs)

lemma sample_fetch_102:
  "fetch_course_assignments sample_world (asc ''102'') = Inl (FetchFailed (HTTPError 404))"
  by (simp add: ev prog_defs)

lemma sample_fetch_103_all:
  "fetch_course_assignments sample_world (asc ''103'') = Inr [asg_lab]"
  by (simp add: ev prog_defs)

lemma sample_collect_moodle:
  "collect_moodle sample_world [asc ''101'', asc ''102'', asc ''103''] =
     ([asg_essay, asg_icon, asg_lab_101, asg_lab],
      [Fetching (asc ''101''), Found 3,
       Fetching (asc ''102''), WarnFailedCourse (asc ''102'') (FetchFailed (HTTPError 404)),
       Fetching (asc ''103''), Found 1])"
  by (simp add: sample_fetch_101 sample_fetch_102 sample_fetch_103_all)

lemma event_of_moodle_name:
  "map_sum id ev_name (event_of_moodle E a) =
     (case utf8_encode (url a @ title a) of
        None \<Rightarrow> Inl UnicodeEncodeError
      | Some b \<Rightarrow> Inr (asc ''[iLearning] '' @ title a))"
  by (simp add: event_of_moodle_def stable_uid_def sha1_hexdigest_utf8_def split: option.splits)

lemma build_calendar_moodle_names:
  "list_all (\<lambda>a. list_all (\<lambda>c. c < 128) (url a @ title a)) as \<Longrightarrow>
     map_sum id (map ev_name) (build_calendar_moodle E as)
       = Inr (map (\<lambda>a. asc ''[iLearning] '' @ title a) as)"
proof (induction as)
  case Nil
  show ?case by simp
next
  case (Cons a as)
  then have e: "utf8_encode (url a @ title a) = Some (url a @ title a)"
    by (simp add: utf8_encode_ascii)
  from event_of_moodle_name [of E a] e obtain x where
    x: "event_of_moodle E a = Inr x" "ev_name x = asc ''[iLearning] '' @ title a"
    by (cases "event_of_moodle E a") auto
  from Cons obtain es where
    es: "build_calendar_moodle E as = Inr es"
      "map ev_name es = map (\<lambda>a. asc ''[iLearning] '' @ title a) as"
    by (cases "build_calendar_moodle E as") auto
  show ?case by (simp add: x es)
qed

lemma sample_names:
  "map_sum id (map ev_name)
     (build_calendar_moodle sample_world [asg_essay, asg_icon, asg_lab_101, asg_lab])
   = Inr [asc ''[iLearning] Essay 1'', asc ''[iLearning] '', asc ''[iLearning] Lab report'',
          asc ''[iLearning] Lab report'']"
proof -
  have "list_all (\<lambda>a. list_all (\<lambda>c. c < 128) (url a @ title a))
      [asg_essay, asg_icon, asg_lab_101, asg_lab :: unit assignment]"
    by (simp add: asg_essay_def asg_icon_def asg_lab_101_def asg_lab_def asc_def)
  from build_calendar_moodle_names [OF this, of sample_world] show ?thesis
    by (simp add: asg_essay_def asg_icon_def asg_lab_101_def asg_lab_def asc_def)
qed

lemma sample_page_items:
  "page_items sample_world (asc ''/course/homework/1'') =
     Inr [item_a, item_b, item_c_resolved, item_d]"
  by (simp add: ev prog_defs)

lemma broken_page_items:
  "page_items broken_world (asc ''/course/homework/1'') =
     Inr [item_a, item_b, item_c_resolved, item_d]"
  by (simp add: ev prog_defs)

lemma broken_page_404:
  "page_items broken_world (asc ''/course/homework/404'') = Inl (FetchFailed (HTTPError 404))"
  by (simp add: ev prog_defs)

lemma sample_listing:
  "parse_list_page sample_world (asc ''https://lms.example/course/homework/1'')
     (asc ''https://lms.example/course/homework/1'')
   = Inr [item_a, item_b, item_c, item_d, item_icon]"
  by (simp add: ev prog_defs)

text \<open>
  C3 holds of the Moodle scraper and fails in the NCHU scraper. Where the first of
  two listing pages answers 404 and the second has four candidates, the NCHU \<open>main\<close>
  ends with the exception of the first page and builds no calendar: nothing catches
  what \<open>raise_for_status\<close> raises at line 188. In the Moodle scraper, on a site
  whose second course of three answers 404, \<open>main\<close> prints the warning for that
  course and builds the calendar of the other two.
\<close>

theorem nchu_listing_failure_aborts:
  "HOMEWORK_URLS broken_world = [asc ''/course/homework/404'', asc ''/course/homework/1'']
   \<and> page_items broken_world (asc ''/course/homework/404'') = Inl (FetchFailed (HTTPError 404))
   \<and> page_items broken_world (asc ''/course/homework/1'')
       = Inr [item_a, item_b, item_c_resolved, item_d]
   \<and> main_nchu broken_world = Inl (FetchFailed (HTTPError 404))
   \<and> COURSE_IDS sample_world = [asc ''101'', asc ''102'', asc ''103'']
   \<and> fetch_course_assignments sample_world (asc ''102'') = Inl (FetchFailed (HTTPError 404))
   \<and> snd (main_moodle sample_world)
       = [Fetching (asc ''101''), Found 3,
          Fetching (asc ''102''), WarnFailedCourse (asc ''102'') (FetchFailed (HTTPError 404)),
          Fetching (asc ''103''), Found 1]
   \<and> map_sum id (map ev_name) (fst (main_moodle sample_world))
       = Inr [asc ''[iLearning] Essay 1'', asc ''[iLearning] '', asc ''[iLearning] Lab report'',
              asc ''[iLearning] Lab report'']"
proof -
  have u: "HOMEWORK_URLS broken_world = [asc ''/course/homework/404'', asc ''/course/homework/1'']"
    by (simp add: broken_world_def broken_first_def)
  have c: "COURSE_IDS sample_world = [asc ''101'', asc ''102'', asc ''103'']"
    by (simp add: sample_world_def)
  have n: "main_nchu broken_world = Inl (FetchFailed (HTTPError 404))"
    by (simp add: main_nchu_def u broken_page_404)
  have m: "main_moodle sample_world =
      (build_calendar_moodle sample_world [asg_essay, asg_icon, asg_lab_101, asg_lab],
       [Fetching (asc ''101''), Found 3,
        Fetching (asc ''102''), WarnFailedCourse (asc ''102'') (FetchFailed (HTTPError 404)),
        Fetching (asc ''103''), Found 1])"
    unfolding main_moodle_def c sample_collect_moodle by simp
  have l: "snd (main_moodle sample_world)
       = [Fetching (asc ''101''), Found 3,
          Fetching (asc ''102''), WarnFailedCourse (asc ''102'') (FetchFailed (HTTPError 404)),
          Fetching (asc ''103''), Found 1]"
    unfolding m by simp
  have k: "map_sum id (map ev_name) (fst (main_moodle sample_world))
       = Inr [asc ''[iLearning] Essay 1'', asc ''[iLearning] '', asc ''[iLearning] Lab report'',
              asc ''[iLearning] Lab report'']"
    unfolding m fst_conv by (rule sample_names)
  show ?thesis
    by (intro conjI; fact u c n l k broken_page_404 broken_page_items sample_fetch_102)
qed

text \<open>
  C6 holds of the NCHU scraper and fails in the Moodle scraper. A row whose link has
  no text (an icon) and whose due date parses yields an assignment with the empty
  title, and \<open>build_calendar\<close> gives it the event named "[iLearning] ": nothing
  between line 107 and line 143 looks at the title. The NCHU \<open>main\<close> drops such a
  candidate (lines 207-208): the listing has it, the candidates of the page do not.
\<close>

theorem moodle_keeps_empty_title:
  "anchor row_icon = Some (asc ''/mod/assign/view.php?id=8'', [])
   \<and> parse_row_moodle sample_world (asc ''101'') row_icon = Inr (Some asg_icon)
   \<and> title asg_icon = []
   \<and> fetch_course_assignments sample_world (asc ''101'') = Inr [asg_essay, asg_icon, asg_lab_101]
   \<and> map_sum id (map ev_name)
        (build_calendar_moodle sample_world [asg_essay, asg_icon, asg_lab_101])
       = Inr [asc ''[iLearning] Essay 1'', asc ''[iLearning] '', asc ''[iLearning] Lab report'']
   \<and> parse_list_page sample_world (asc ''https://lms.example/course/homework/1'')
        (asc ''https://lms.example/course/homework/1'')
       = Inr [item_a, item_b, item_c, item_d, item_icon]
   \<and> fst item_icon = []
   \<and> page_items sample_world (asc ''/course/homework/1'')
       = Inr [item_a, item_b, item_c_resolved, item_d]"
proof -
  have a: "anchor row_icon = Some (asc ''/mod/assign/view.php?id=8'', [])"
    by (simp add: row_icon_def)
  have r: "parse_row_moodle sample_world (asc ''101'') row_icon = Inr (Some asg_icon)"
    by (simp add: ev prog_defs)
  have t: "title asg_icon = []"
    by (simp add: asg_icon_def)
  have i: "fst item_icon = []"
    by (simp add: item_icon_def)
  have "list_all (\<lambda>a. list_all (\<lambda>c. c < 128) (url a @ title a))
      [asg_essay, asg_icon, asg_lab_101 :: unit assignment]"
    by (simp add: asg_essay_def asg_icon_def asg_lab_101_def asg_lab_def asc_def)
  from build_calendar_moodle_names [OF this, of sample_world]
  have b: "map_sum id (map ev_name)
        (build_calendar_moodle sample_world [asg_essay, asg_icon, asg_lab_101])
       = Inr [asc ''[iLearning] Essay 1'', asc ''[iLearning] '', asc ''[iLearning] Lab report'']"
    by (simp add: asg_essay_def asg_icon_def asg_lab_101_def asg_lab_def asc_def)
  show ?thesis
    by (intro conjI; fact a r t i b sample_fetch_101 sample_listing sample_page_items)
qed

section \<open>Label stripping\<close>

lemmas re_ev = str_defs cls_defs re_defs rep_simps due_english_def due_chinese_def

lemma strip_moodle_english:
  "re_sub_empty True prefix_re_moodle due_english = asc ''2025-09-20 23:59''"
  by (simp add: re_ev)

lemma strip_moodle_chinese:
  "re_sub_empty True prefix_re_moodle due_chinese = asc ''2025-09-20 23:59''"
  by (simp add: re_ev)

lemma strip_nchu_english:
  "re_sub_empty True label_re_nchu due_english = asc ''date: 2025-09-20 23:59''"
  by (simp add: re_ev)

lemma strip_nchu_chinese:
  "re_sub_empty True label_re_nchu due_chinese = asc ''2025-09-20 23:59''"
  by (simp add: re_ev)

lemma token_nchu_english:
  "re_search False date_re_nchu (asc ''date: 2025-09-20 23:59'') = Some (asc ''2025-09-20 23:59'')"
  by (simp add: re_ev)

lemma kw_moodle_english: "has_kw_moodle due_english"
  by (simp add: re_ev)

lemma kw_moodle_chinese: "has_kw_moodle due_chinese"
  by (simp add: re_ev)

lemma due_nonempty: "due_english \<noteq> [] \<and> due_chinese \<noteq> []"
  by (simp add: due_english_def due_chinese_def asc_def jiezhi_def)

text \<open>
  C5: the due text "Due date: 2025-09-20 23:59" and the same date under the Chinese
  label give the same instant, 2025-09-20 23:59 in the local zone, in both scrapers:
  as the due date of the assignment of a Moodle row whose due cell is the text, and
  as the localised result of \<open>parse_due\<close>. The date parser is taken to read
  "2025-09-20 23:59" as that date, with and without \<open>dayfirst\<close>. The NCHU pattern
  strips "Due" only and leaves "date: " before the date; on that text the parser
  is taken to skip the word or to fail, and then the fallback of \<open>parse_due\<close>
  parses the date token alone.
\<close>

theorem label_stripping_language_agnostic:
  fixes E :: "'z world"
  assumes "dtparse E (Some False) (asc ''2025-09-20 23:59'')
      = Some \<lparr>wall = civ 2025 9 20 23 59, tzinfo = None\<rparr>"
    and "dtparse E None (asc ''2025-09-20 23:59'')
      = Some \<lparr>wall = civ 2025 9 20 23 59, tzinfo = None\<rparr>"
    and "dtparse E (Some False) (asc ''date: 2025-09-20 23:59'')
        = Some \<lparr>wall = civ 2025 9 20 23 59, tzinfo = None\<rparr>
      \<or> dtparse E (Some False) (asc ''date: 2025-09-20 23:59'') = None"
    and "contains href (asc ''mod/assign'')"
    and "urljoin E (BASE E @ asc ''/'') (lstrip_slash href) = Some u"
  shows "parse_row_moodle E cid \<lparr>anchor = Some (href, t), tds = [t, due_english]\<rparr>
      = Inr (Some \<lparr>title = t,
           due_at = \<lparr>wall = civ 2025 9 20 23 59, tzinfo = Some (LOCAL_TZ E)\<rparr>,
           url = u, course_id = cid\<rparr>)
    \<and> parse_row_moodle E cid \<lparr>anchor = Some (href, t), tds = [t, due_chinese]\<rparr>
      = Inr (Some \<lparr>title = t,
           due_at = \<lparr>wall = civ 2025 9 20 23 59, tzinfo = Some (LOCAL_TZ E)\<rparr>,
           url = u, course_id = cid\<rparr>)
    \<and> map_option (to_local E) (parse_due E due_english)
      = Some (Inr \<lparr>wall = civ 2025 9 20 23 59, tzinfo = Some (LOCAL_TZ E)\<rparr>)
    \<and> map_option (to_local E) (parse_due E due_chinese)
      = Some (Inr \<lparr>wall = civ 2025 9 20 23 59, tzinfo = Some (LOCAL_TZ E)\<rparr>)"
proof -
  let ?d0 = "\<lparr>wall = civ 2025 9 20 23 59, tzinfo = None\<rparr> :: 'z datetime"
  let ?d1 = "\<lparr>wall = civ 2025 9 20 23 59, tzinfo = Some (LOCAL_TZ E)\<rparr>"
  have loc: "to_local E ?d0 = Inr ?d1"
    by (simp add: to_local_def)
  have te: "due_text_moodle [t, due_english] = Some due_english"
    using kw_moodle_english due_nonempty by (simp add: due_text_moodle_def)
  have tc: "due_text_moodle [t, due_chinese] = Some due_chinese"
    using kw_moodle_chinese due_nonempty by (simp add: due_text_moodle_def)
  have m1: "parse_row_moodle E cid \<lparr>anchor = Some (href, t), tds = [t, due_english]\<rparr>
      = Inr (Some \<lparr>title = t, due_at = ?d1, url = u, course_id = cid\<rparr>)"
    using assms(1,4,5)
    by (simp add: parse_row_moodle_def te strip_moodle_english loc urljoin_or_raise_def)
  have m2: "parse_row_moodle E cid \<lparr>anchor = Some (href, t), tds = [t, due_chinese]\<rparr>
      = Inr (Some \<lparr>title = t, due_at = ?d1, url = u, course_id = cid\<rparr>)"
    using assms(1,4,5)
    by (simp add: parse_row_moodle_def tc strip_moodle_chinese loc urljoin_or_raise_def)
  have n1: "parse_due E due_english = Some ?d0"
    using assms(2,3)
    by (auto simp: parse_due_def strip_nchu_english token_nchu_english)
  have n2: "parse_due E due_chinese = Some ?d0"
    using assms(1) by (simp add: parse_due_def strip_nchu_chinese)
  show ?thesis
    unfolding n1 n2 using m1 m2 loc by simp
qed

theorem label_stripping_language_agnostic_witness:
  "dtparse sample_world (Some False) (asc ''2025-09-20 23:59'')
      = Some \<lparr>wall = civ 2025 9 20 23 59, tzinfo = None\<rparr>
   \<and> dtparse sample_world None (asc ''2025-09-20 23:59'')
      = Some \<lparr>wall = civ 2025 9 20 23 59, tzinfo = None\<rparr>
   \<and> dtparse sample_world (Some False) (asc ''date: 2025-09-20 23:59'')
      = Some \<lparr>wall = civ 2025 9 20 23 59, tzinfo = None\<rparr>
   \<and> dtparse strict_world (Some False) (asc ''date: 2025-09-20 23:59'') = None
   \<and> contains (asc ''/mod/assign/view.php?id=7'') (asc ''mod/assign'')
   \<and> urljoin sample_world (BASE sample_world @ asc ''/'')
        (lstrip_slash (asc ''/mod/assign/view.php?id=7''))
      = Some (asc ''https://lms.example/mod/assign/view.php?id=7'')
   \<and> parse_row_moodle sample_world (asc ''101'')
        \<lparr>anchor = Some (asc ''/mod/assign/view.php?id=7'', asc ''Essay 1''),
         tds = [asc ''Essay 1'', due_english]\<rparr>
      = parse_row_moodle sample_world (asc ''101'')
        \<lparr>anchor = Some (asc ''/mod/assign/view.php?id=7'', asc ''Essay 1''),
         tds = [asc ''Essay 1'', due_chinese]\<rparr>
   \<and> map_option (to_local sample_world) (parse_due sample_world due_english)
      = Some (Inr \<lparr>wall = civ 2025 9 20 23 59, tzinfo = Some ()\<rparr>)
   \<and> map_option (to_local sample_world) (parse_due sample_world due_chinese)
      = Some (Inr \<lparr>wall = civ 2025 9 20 23 59, tzinfo = Some ()\<rparr>)
   \<and> map_option (to_local strict_world) (parse_due strict_world due_english)
      = Some (Inr \<lparr>wall = civ 2025 9 20 23 59, tzinfo = Some ()\<rparr>)
   \<and> map_option (to_local strict_world) (parse_due strict_world due_chinese)
      = Some (Inr \<lparr>wall = civ 2025 9 20 23 59, tzinfo = Some ()\<rparr>)"
proof -
  have p: "dtparse sample_world (Some False) (asc ''2025-09-20 23:59'')
      = Some \<lparr>wall = civ 2025 9 20 23 59, tzinfo = None\<rparr>"
    "dtparse sample_world None (asc ''2025-09-20 23:59'')
      = Some \<lparr>wall = civ 2025 9 20 23 59, tzinfo = None\<rparr>"
    "dtparse sample_world (Some False) (asc ''date: 2025-09-20 23:59'')
      = Some \<lparr>wall = civ 2025 9 20 23 59, tzinfo = None\<rparr>"
    by (simp_all add: ev)
  have q: "dtparse strict_world (Some False) (asc ''2025-09-20 23:59'')
      = Some \<lparr>wall = civ 2025 9 20 23 59, tzinfo = None\<rparr>"
    "dtparse strict_world None (asc ''2025-09-20 23:59'')
      = Some \<lparr>wall = civ 2025 9 20 23 59, tzinfo = None\<rparr>"
    "dtparse strict_world (Some False) (asc ''date: 2025-09-20 23:59'') = None"
    by (simp_all add: ev)
  have h: "contains (asc ''/mod/assign/view.php?id=7'') (asc ''mod/assign'')"
    by (simp add: asc_def)
  have u: "urljoin sample_world (BASE sample_world @ asc ''/'')
        (lstrip_slash (asc ''/mod/assign/view.php?id=7''))
      = Some (asc ''https://lms.example/mod/assign/view.php?id=7'')"
    "urljoin strict_world (BASE strict_world @ asc ''/'')
        (lstrip_slash (asc ''/mod/assign/view.php?id=7''))
      = Some (asc ''https://lms.example/mod/assign/view.php?id=7'')"
    by (simp_all add: ev lstrip_slash_def)
  have z: "LOCAL_TZ sample_world = ()" "LOCAL_TZ strict_world = ()"
    by simp_all
  note a = label_stripping_language_agnostic [of sample_world, OF p(1) p(2) disjI1 [OF p(3)] h u(1),
      of "asc ''101''" "asc ''Essay 1''"]
  note b = label_stripping_language_agnostic [of strict_world, OF q(1) q(2) disjI2 [OF q(3)] h u(2),
      of "asc ''101''" "asc ''Essay 1''"]
  from a b p q h u show ?thesis by simp
qed

end
